theory Spec2Isabelle
  imports Complex_Main "HOL-Library.AList"
begin

section \<open>Python strings\<close>

text \<open>
  A Python string is a sequence of Unicode code points. A character is a code point:
  \<open>Chr c\<close> is the code point of the character \<open>c\<close>, from 0 to 255, and \<open>Wide n\<close> is the
  code point \<open>256 + n\<close>. \<open>lit\<close> writes a string literal of the source.
\<close>

datatype pychar = Chr char | Wide nat

type_synonym str = "pychar list"

definition lit :: "string \<Rightarrow> str" where
  "lit s = map Chr s"

text \<open>The ASCII characters are the code points 0 to 127.\<close>

definition is_ascii :: "pychar \<Rightarrow> bool" where
  "is_ascii c = (case c of Chr ch \<Rightarrow> \<not> digit7 ch | Wide n \<Rightarrow> False)"

text \<open>
  The Unicode character database of the Python runtime, which is not part of the
  repository: for a character beyond ASCII, whether it is uppercase, lowercase,
  titlecase, a digit or white space (\<^verbatim>\<open>str.isupper\<close>, \<^verbatim>\<open>str.islower\<close>,
  \<^verbatim>\<open>str.istitle\<close>, \<^verbatim>\<open>str.isdigit\<close> and \<^verbatim>\<open>str.isspace\<close> of the character), and for a
  string with a character beyond ASCII, its \<^verbatim>\<open>lower()\<close> and its \<^verbatim>\<open>upper()\<close>, which
  are not made character by character. On ASCII the classes and the mappings are
  written out below, and the database is not asked.
\<close>

record unicode =
  uni_isupper :: "pychar \<Rightarrow> bool"
  uni_islower :: "pychar \<Rightarrow> bool"
  uni_istitle :: "pychar \<Rightarrow> bool"
  uni_isdigit :: "pychar \<Rightarrow> bool"
  uni_isspace :: "pychar \<Rightarrow> bool"
  uni_lower :: "str \<Rightarrow> str"
  uni_upper :: "str \<Rightarrow> str"

definition upper_letters :: str where
  "upper_letters = lit ''ABCDEFGHIJKLMNOPQRSTUVWXYZ''"

definition lower_letters :: str where
  "lower_letters = lit ''abcdefghijklmnopqrstuvwxyz''"

definition digit_chars :: str where
  "digit_chars = lit ''0123456789''"

text \<open>The ASCII white space: tab, line feed, vertical tab, form feed, carriage return,
  the four separators 0x1C to 0x1F, and the space.\<close>

definition space_chars :: str where
  "space_chars = lit [CHR 0x09, CHR 0x0A, CHR 0x0B, CHR 0x0C, CHR 0x0D,
                      CHR 0x1C, CHR 0x1D, CHR 0x1E, CHR 0x1F, CHR 0x20]"

definition is_upper_char :: "unicode \<Rightarrow> pychar \<Rightarrow> bool" where
  "is_upper_char u c = (if is_ascii c then c \<in> set upper_letters else uni_isupper u c)"

definition is_lower_char :: "unicode \<Rightarrow> pychar \<Rightarrow> bool" where
  "is_lower_char u c = (if is_ascii c then c \<in> set lower_letters else uni_islower u c)"

definition is_title_char :: "unicode \<Rightarrow> pychar \<Rightarrow> bool" where
  "is_title_char u c = (if is_ascii c then False else uni_istitle u c)"

definition is_digit_char :: "unicode \<Rightarrow> pychar \<Rightarrow> bool" where
  "is_digit_char u c = (if is_ascii c then c \<in> set digit_chars else uni_isdigit u c)"

definition is_space_char :: "unicode \<Rightarrow> pychar \<Rightarrow> bool" where
  "is_space_char u c = (if is_ascii c then c \<in> set space_chars else uni_isspace u c)"

text \<open>\<^verbatim>\<open>s.isupper()\<close>: all cased characters of \<open>s\<close> are uppercase (none is lowercase or
  titlecase) and there is at least one cased character.\<close>

definition py_isupper :: "unicode \<Rightarrow> str \<Rightarrow> bool" where
  "py_isupper u s =
     (list_ex (is_upper_char u) s
      \<and> \<not> list_ex (\<lambda>c. is_lower_char u c \<or> is_title_char u c) s)"

text \<open>\<^verbatim>\<open>any(char.isdigit() for char in s)\<close>\<close>

definition any_isdigit :: "unicode \<Rightarrow> str \<Rightarrow> bool" where
  "any_isdigit u s = list_ex (is_digit_char u) s"

text \<open>\<^verbatim>\<open>s.lower()\<close> and \<^verbatim>\<open>s.upper()\<close>: letter by letter on an ASCII string, and the
  database's answer on any other string.\<close>

definition lower_char :: "pychar \<Rightarrow> pychar" where
  "lower_char c = (case map_of (zip upper_letters lower_letters) c of Some l \<Rightarrow> l | None \<Rightarrow> c)"

definition upper_char :: "pychar \<Rightarrow> pychar" where
  "upper_char c = (case map_of (zip lower_letters upper_letters) c of Some l \<Rightarrow> l | None \<Rightarrow> c)"

definition py_lower :: "unicode \<Rightarrow> str \<Rightarrow> str" where
  "py_lower u s = (if list_all is_ascii s then map lower_char s else uni_lower u s)"

definition py_upper :: "unicode \<Rightarrow> str \<Rightarrow> str" where
  "py_upper u s = (if list_all is_ascii s then map upper_char s else uni_upper u s)"

text \<open>\<^verbatim>\<open>s.replace(a, b)\<close> for single characters \<open>a\<close> and \<open>b\<close>.\<close>

definition py_replace :: "pychar \<Rightarrow> pychar \<Rightarrow> str \<Rightarrow> str" where
  "py_replace a b s = map (\<lambda>c. if c = a then b else c) s"

text \<open>\<^verbatim>\<open>s.strip()\<close>: white space removed at both ends.\<close>

definition py_strip :: "unicode \<Rightarrow> str \<Rightarrow> str" where
  "py_strip u s = rev (dropWhile (is_space_char u) (rev (dropWhile (is_space_char u) s)))"

text \<open>\<^verbatim>\<open>s.split(sep)\<close> for a single character \<open>sep\<close>: the pieces between the separators,
  empty pieces kept, so the result has one more piece than \<open>s\<close> has separators.\<close>

fun split_on :: "pychar \<Rightarrow> str \<Rightarrow> str list" where
  "split_on sep [] = [[]]"
| "split_on sep (c # cs) =
     (if c = sep then [] # split_on sep cs
      else (case split_on sep cs of
              [] \<Rightarrow> [[c]]
            | w # ws \<Rightarrow> (c # w) # ws))"

text \<open>\<^verbatim>\<open>s.split()\<close>: the maximal runs of characters that are not white space. The second
  argument is the run being read.\<close>

fun split_ws :: "unicode \<Rightarrow> str \<Rightarrow> str \<Rightarrow> str list" where
  "split_ws u cur [] = (if cur = [] then [] else [cur])"
| "split_ws u cur (c # cs) =
     (if is_space_char u c
      then (if cur = [] then split_ws u [] cs else cur # split_ws u [] cs)
      else split_ws u (cur @ [c]) cs)"

definition py_split :: "unicode \<Rightarrow> str \<Rightarrow> str list" where
  "py_split u s = split_ws u [] s"

text \<open>\<^verbatim>\<open>sep.join(xs)\<close>\<close>

fun py_join :: "str \<Rightarrow> str list \<Rightarrow> str" where
  "py_join sep [] = []"
| "py_join sep [x] = x"
| "py_join sep (x # y # ys) = x @ sep @ py_join sep (y # ys)"

section \<open>The query normalizer\<close>

text \<open>
  \<^verbatim>\<open>
  def normalize_query(query: str) -> str:
      if ':' in query:
          parts = query.split(':')
          if len(parts) == 2:
              if parts[0].isupper() and not any(char.isdigit() for char in parts[0]):
                  return f"{parts[1]}:{parts[0]}"
      return query
  \<close>
  The first argument is the database the string methods read.
\<close>

definition normalize_query :: "unicode \<Rightarrow> str \<Rightarrow> str" where
  "normalize_query u query =
     (if Chr CHR '':'' \<in> set query then
        (case split_on (Chr CHR '':'') query of
           [p0, p1] \<Rightarrow>
             (if py_isupper u p0 \<and> \<not> any_isdigit u p0 then p1 @ lit '':'' @ p0 else query)
         | _ \<Rightarrow> query)
      else query)"

section \<open>Decoded JSON, dictionaries, exceptions\<close>

text \<open>
  What \<^verbatim>\<open>json\<close> decoding gives in Python: \<^verbatim>\<open>None\<close>, booleans, integers, floats (the
  finite ones, as rationals), strings, lists and dictionaries. A dictionary is an
  association list in insertion order; \<open>map_of\<close> looks a key up, \<open>AList.update\<close> is the
  assignment \<^verbatim>\<open>d[k] = v\<close>.
\<close>

datatype json =
    JNull
  | JBool bool
  | JInt int
  | JFloat rat
  | JStr str
  | JList "json list"
  | JObj "(str \<times> json) list"

type_synonym dict = "(str \<times> json) list"

text \<open>The exceptions the modelled operations raise, with what their message is made of:
  the value that lacks an attribute and the attribute, the value that cannot be
  subscripted, the key that is missing. Any other class (a transport error of the HTTP
  client, a validation error of the record class) is \<open>OtherException\<close> with its text.\<close>

datatype pyexn =
    AttributeError json str
  | TypeError json
  | KeyError json
  | IndexError
  | OtherException str

text \<open>Sequencing: an exception of the first computation ends the second.\<close>

definition then_do :: "pyexn + 'a \<Rightarrow> ('a \<Rightarrow> pyexn + 'b) \<Rightarrow> pyexn + 'b" where
  "then_do m f = (case m of Inl e \<Rightarrow> Inl e | Inr x \<Rightarrow> f x)"

text \<open>Python's truth value of a decoded value (\<^verbatim>\<open>if x:\<close>, \<^verbatim>\<open>not x\<close>).\<close>

fun py_truthy :: "json \<Rightarrow> bool" where
  "py_truthy JNull = False"
| "py_truthy (JBool b) = b"
| "py_truthy (JInt i) = (i \<noteq> 0)"
| "py_truthy (JFloat r) = (r \<noteq> 0)"
| "py_truthy (JStr s) = (s \<noteq> [])"
| "py_truthy (JList xs) = (xs \<noteq> [])"
| "py_truthy (JObj d) = (d \<noteq> [])"

text \<open>\<^verbatim>\<open>d.get(k)\<close> and \<^verbatim>\<open>d.get(k, default)\<close> on a dictionary.\<close>

definition py_get :: "dict \<Rightarrow> str \<Rightarrow> json" where
  "py_get d k = (case map_of d k of Some v \<Rightarrow> v | None \<Rightarrow> JNull)"

definition py_get_default :: "dict \<Rightarrow> str \<Rightarrow> json \<Rightarrow> json" where
  "py_get_default d k dflt = (case map_of d k of Some v \<Rightarrow> v | None \<Rightarrow> dflt)"

text \<open>\<^verbatim>\<open>if v: params[k] = v\<close> for an optional string and an optional integer.\<close>

definition set_if_str :: "str \<Rightarrow> str option \<Rightarrow> dict \<Rightarrow> dict" where
  "set_if_str k v params =
     (case v of Some s \<Rightarrow> (if s \<noteq> [] then AList.update k (JStr s) params else params)
              | None \<Rightarrow> params)"

definition set_if_int :: "str \<Rightarrow> int option \<Rightarrow> dict \<Rightarrow> dict" where
  "set_if_int k v params =
     (case v of Some n \<Rightarrow> (if n \<noteq> 0 then AList.update k (JInt n) params else params)
              | None \<Rightarrow> params)"

text \<open>\<^verbatim>\<open>xs[:n]\<close>: a negative \<open>n\<close> counts from the end.\<close>

definition slice_to :: "'a list \<Rightarrow> int \<Rightarrow> 'a list" where
  "slice_to xs n = (if 0 \<le> n then take (nat n) xs else take (nat (int (length xs) + n)) xs)"

section \<open>The process environment and the external collaborators\<close>

text \<open>
  Everything the handlers read from outside. \<open>SERP_API_KEY\<close> is the module global set
  once by \<^verbatim>\<open>os.getenv("SERP_API_KEY")\<close>; \<open>getenv\<close> is \<^verbatim>\<open>os.getenv\<close> at call time;
  \<open>tables\<close> is the Unicode character database the string methods read;
  \<open>get_dict\<close> is \<^verbatim>\<open>GoogleSearch(params).get_dict()\<close>, which returns the decoded body
  or raises; \<open>now_isoformat\<close> is \<^verbatim>\<open>datetime.now().isoformat()\<close>; \<open>repr_json\<close> is
  \<^verbatim>\<open>str\<close> on a decoded value that is not a string; \<open>str_exn\<close> is \<^verbatim>\<open>str(e)\<close> on an
  exception; \<open>FlightDetails_dict\<close> is \<^verbatim>\<open>FlightDetails(**kwargs).dict()\<close>, the record
  class's validation, which returns the record's dictionary or raises.
\<close>

record env =
  SERP_API_KEY :: "str option"
  getenv :: "str \<Rightarrow> str option"
  tables :: unicode
  get_dict :: "dict \<Rightarrow> pyexn + dict"
  now_isoformat :: str
  repr_json :: "json \<Rightarrow> str"
  str_exn :: "pyexn \<Rightarrow> str"
  FlightDetails_dict :: "dict \<Rightarrow> pyexn + json"

text \<open>\<^verbatim>\<open>str(v)\<close>, as an f-string formats a decoded value.\<close>

definition py_str :: "env \<Rightarrow> json \<Rightarrow> str" where
  "py_str env v = (case v of JStr s \<Rightarrow> s | _ \<Rightarrow> repr_json env v)"

text \<open>An optional string under \<^verbatim>\<open>if x:\<close>: the string when it is truthy (neither
  \<^verbatim>\<open>None\<close> nor empty).\<close>

definition truthy_of :: "str option \<Rightarrow> str option" where
  "truthy_of x = (case x of Some s \<Rightarrow> (if s \<noteq> [] then Some s else None) | None \<Rightarrow> None)"

section \<open>The response envelope builder\<close>

definition create_error_response :: "env \<Rightarrow> str \<Rightarrow> str \<Rightarrow> str \<Rightarrow> json" where
  "create_error_response env query error tool_type =
     JObj [(lit ''tool'', JStr tool_type),
           (lit ''query'', JStr query),
           (lit ''timestamp'', JStr (now_isoformat env)),
           (lit ''error'', JStr error),
           (lit ''success'', JBool False)]"

definition create_success_response :: "env \<Rightarrow> str \<Rightarrow> dict \<Rightarrow> str \<Rightarrow> json" where
  "create_success_response env query data tool_type =
     JObj [(lit ''tool'', JStr tool_type),
           (lit ''query'', JStr query),
           (lit ''timestamp'', JStr (now_isoformat env)),
           (lit ''success'', JBool True),
           (lit ''api_response'', JObj data)]"

section \<open>The external call gateway\<close>

text \<open>
  \<^verbatim>\<open>
  async def search_google(params):
      try:
          search = GoogleSearch(params)
          results = search.get_dict()
          if "error" in results:
              return {"error": results["error"]}
          return results
      except Exception as e:
          return {"error": str(e)}
  \<close>
\<close>

definition search_google :: "env \<Rightarrow> dict \<Rightarrow> dict" where
  "search_google env params =
     (case get_dict env params of
        Inl e \<Rightarrow> [(lit ''error'', JStr (str_exn env e))]
      | Inr results \<Rightarrow>
          (case map_of results (lit ''error'') of
             Some v \<Rightarrow> [(lit ''error'', v)]
           | None \<Rightarrow> results))"

text \<open>A handler's run: the parameter maps it sent to the gateway, in order, and what the
  handler did at its boundary: \<open>Inr\<close> the value returned, \<open>Inl\<close> an exception raised.\<close>

type_synonym run = "dict list \<times> (pyexn + json)"

section \<open>The flight result parser\<close>

text \<open>\<^verbatim>\<open>v[0]\<close> on a decoded value: the first element of a list, the first character of a
  string; a dictionary has no key \<open>0\<close>, and the other values are not subscriptable.\<close>

fun py_first :: "json \<Rightarrow> pyexn + json" where
  "py_first (JList (x # xs)) = Inr x"
| "py_first (JList []) = Inl IndexError"
| "py_first (JStr (c # cs)) = Inr (JStr [c])"
| "py_first (JStr []) = Inl IndexError"
| "py_first (JObj d) = Inl (KeyError (JInt 0))"
| "py_first v = Inl (TypeError v)"

text \<open>The receiver of \<^verbatim>\<open>.get\<close>: only a dictionary has the method.\<close>

fun as_dict :: "json \<Rightarrow> pyexn + dict" where
  "as_dict (JObj d) = Inr d"
| "as_dict v = Inl (AttributeError v (lit ''get''))"

text \<open>\<^verbatim>\<open>departure_time.split()[0] if departure_time else flight_info.get("departure_date")\<close>:
  only a string has \<^verbatim>\<open>split\<close>, and a string of white space splits into no word.\<close>

definition departure_date_of :: "unicode \<Rightarrow> json \<Rightarrow> dict \<Rightarrow> pyexn + json" where
  "departure_date_of u departure_time flight_info =
     (if py_truthy departure_time then
        (case departure_time of
           JStr s \<Rightarrow> (case py_split u s of [] \<Rightarrow> Inl IndexError | w # ws \<Rightarrow> Inr (JStr w))
         | v \<Rightarrow> Inl (AttributeError v (lit ''split'')))
      else Inr (py_get flight_info (lit ''departure_date'')))"

text \<open>
  One pass of the loop body of \<^verbatim>\<open>parse_flights\<close>: \<open>Inr None\<close> is the \<^verbatim>\<open>continue\<close> of a
  group without legs, \<open>Inr (Some r)\<close> the record appended, \<open>Inl e\<close> an exception.
  \<^verbatim>\<open>
      flight_legs = flight_info.get("flights", [])
      if not flight_legs:
          continue
      first_leg = flight_legs[0]
      departure_airport = first_leg.get("departure_airport", {})
      arrival_airport = first_leg.get("arrival_airport", {})
      departure_time = departure_airport.get("time", "")
      arrival_time = arrival_airport.get("time", "")
      parsed_flight = FlightDetails(departure_airport_id=departure_airport.get("id"), ...)
      parsed_flights.append(parsed_flight.dict())
  \<close>
\<close>

definition parse_flight :: "env \<Rightarrow> json \<Rightarrow> pyexn + json option" where
  "parse_flight env flight_info_v =
     then_do (as_dict flight_info_v) (\<lambda>flight_info.
       let flight_legs = py_get_default flight_info (lit ''flights'') (JList []) in
       if \<not> py_truthy flight_legs then Inr None
       else
         then_do (py_first flight_legs) (\<lambda>first_leg_v.
         then_do (as_dict first_leg_v) (\<lambda>first_leg.
         then_do (as_dict (py_get_default first_leg (lit ''departure_airport'') (JObj []))) (\<lambda>departure_airport.
         then_do (as_dict (py_get_default first_leg (lit ''arrival_airport'') (JObj []))) (\<lambda>arrival_airport.
           let departure_time = py_get_default departure_airport (lit ''time'') (JStr []);
               arrival_time = py_get_default arrival_airport (lit ''time'') (JStr [])
           in
         then_do (departure_date_of (tables env) departure_time flight_info) (\<lambda>departure_date.
         then_do (FlightDetails_dict env
             [(lit ''departure_airport_id'', py_get departure_airport (lit ''id'')),
              (lit ''departure_airport_name'', py_get departure_airport (lit ''name'')),
              (lit ''departure_time'', departure_time),
              (lit ''arrival_airport_id'', py_get arrival_airport (lit ''id'')),
              (lit ''arrival_airport_name'', py_get arrival_airport (lit ''name'')),
              (lit ''arrival_time'', arrival_time),
              (lit ''airline'', py_get first_leg (lit ''airline'')),
              (lit ''flight_number'', py_get first_leg (lit ''flight_number'')),
              (lit ''airplane'', py_get first_leg (lit ''airplane'')),
              (lit ''travel_class'', py_get first_leg (lit ''travel_class'')),
              (lit ''duration'', py_get first_leg (lit ''duration'')),
              (lit ''legroom'', py_get first_leg (lit ''legroom'')),
              (lit ''overnight'', py_get first_leg (lit ''overnight'')),
              (lit ''ticket_also_sold_by'', py_get first_leg (lit ''ticket_also_sold_by'')),
              (lit ''extensions'', py_get first_leg (lit ''extensions'')),
              (lit ''price'', py_get flight_info (lit ''price'')),
              (lit ''departure_date'', departure_date),
              (lit ''return_date'', py_get flight_info (lit ''return_date'')),
              (lit ''passenger'', py_get_default flight_info (lit ''passenger'') (JInt 1)),
              (lit ''total_duration'', py_get flight_info (lit ''total_duration'')),
              (lit ''carbon_emissions'', py_get flight_info (lit ''carbon_emissions'')),
              (lit ''legs'', py_get flight_info (lit ''flights''))])
           (\<lambda>record. Inr (Some record))))))))"

text \<open>The loop of \<^verbatim>\<open>parse_flights\<close>, with the list \<^verbatim>\<open>parsed_flights\<close> it appends to.\<close>

fun parse_flights_loop :: "env \<Rightarrow> json list \<Rightarrow> json list \<Rightarrow> pyexn + json list" where
  "parse_flights_loop env parsed_flights [] = Inr parsed_flights"
| "parse_flights_loop env parsed_flights (flight_info # rest) =
     (case parse_flight env flight_info of
        Inl e \<Rightarrow> Inl e
      | Inr None \<Rightarrow> parse_flights_loop env parsed_flights rest
      | Inr (Some record) \<Rightarrow> parse_flights_loop env (parsed_flights @ [record]) rest)"

definition parse_flights :: "env \<Rightarrow> json list \<Rightarrow> pyexn + json list" where
  "parse_flights env flights_data = parse_flights_loop env [] flights_data"

section \<open>The flight search handler\<close>

definition TRAVEL_CLASS_MAP :: "(str \<times> int) list" where
  "TRAVEL_CLASS_MAP =
     [(lit ''economy'', 1), (lit ''eco'', 1), (lit ''coach'', 1),
      (lit ''premium'', 2), (lit ''premium economy'', 2), (lit ''premium_economy'', 2),
      (lit ''business'', 3), (lit ''business class'', 3), (lit ''business_class'', 3),
      (lit ''first'', 4), (lit ''first class'', 4), (lit ''first_class'', 4), (lit ''luxury'', 4)]"

text \<open>\<^verbatim>\<open>travel_class.lower().replace("-", "_").strip() if travel_class else "economy"\<close>\<close>

definition travel_class_key :: "unicode \<Rightarrow> str option \<Rightarrow> str" where
  "travel_class_key u travel_class =
     (case travel_class of
        Some tc \<Rightarrow>
          (if tc \<noteq> [] then py_strip u (py_replace (Chr CHR ''-'') (Chr CHR ''_'') (py_lower u tc))
           else (lit ''economy''))
      | None \<Rightarrow> (lit ''economy''))"

text \<open>\<^verbatim>\<open>str\<close> of a list of strings that need no escaping, as the table's keys.\<close>

definition str_of_keys :: "str list \<Rightarrow> str" where
  "str_of_keys ks = (lit ''['') @ py_join (lit '', '') (map (\<lambda>k. lit [CHR 0x27] @ k @ lit [CHR 0x27]) ks) @ (lit '']'')"

text \<open>\<^verbatim>\<open>str\<close> of an \<^verbatim>\<open>Optional[str]\<close> in an f-string.\<close>

definition str_of_opt :: "str option \<Rightarrow> str" where
  "str_of_opt x = (case x of Some s \<Rightarrow> s | None \<Rightarrow> (lit ''None''))"

definition invalid_travel_class :: "str option \<Rightarrow> json" where
  "invalid_travel_class travel_class =
     JObj [(lit ''error'', JStr ((lit ''Invalid travel_class '') @ lit [CHR 0x27] @ str_of_opt travel_class
                            @ lit [CHR 0x27] @ (lit ''. Must be one of '')
                            @ str_of_keys (map fst TRAVEL_CLASS_MAP)))]"

text \<open>The parameter map of \<^verbatim>\<open>google_flights\<close> as it stands before the credential is
  read: the dictionary literal and the assignments that follow it.\<close>

definition flights_params ::
  "unicode \<Rightarrow> str \<Rightarrow> str \<Rightarrow> str \<Rightarrow> str option \<Rightarrow> str option \<Rightarrow> int \<Rightarrow> int option \<Rightarrow> int
   \<Rightarrow> dict" where
  "flights_params u departure_airport arrival_airport departure_date return_date airline_name
       travel_class_int max_price passengers =
     (let params = [(lit ''engine'', JStr (lit ''google_flights'')),
                    (lit ''departure_id'', JStr (py_upper u departure_airport)),
                    (lit ''arrival_id'', JStr (py_upper u arrival_airport)),
                    (lit ''outbound_date'', JStr departure_date),
                    (lit ''adults'', JInt passengers),
                    (lit ''travel_class'', JInt travel_class_int),
                    (lit ''hl'', JStr (lit ''en''))];
          params = (case truthy_of return_date of
                      Some d \<Rightarrow> AList.update (lit ''type'') (JStr (lit ''1''))
                                  (AList.update (lit ''return_date'') (JStr d) params)
                    | None \<Rightarrow> AList.update (lit ''type'') (JStr (lit ''2'')) params);
          params = set_if_int (lit ''max_price'') max_price params
      in set_if_str (lit ''airline_name'') airline_name params)"

text \<open>\<^verbatim>\<open>best_flights[:max_results]\<close> as \<^verbatim>\<open>parse_flights\<close> iterates it: the elements of
  a list, the characters of a string; no other value can be sliced.\<close>

fun sliced_items :: "json \<Rightarrow> int \<Rightarrow> pyexn + json list" where
  "sliced_items (JList xs) n = Inr (slice_to xs n)"
| "sliced_items (JStr s) n = Inr (map (\<lambda>c. JStr [c]) (slice_to s n))"
| "sliced_items v n = Inl (TypeError v)"

text \<open>
  The body of the \<^verbatim>\<open>try\<close> of \<^verbatim>\<open>google_flights\<close>:
  \<^verbatim>\<open>
      results = await search_google(params)
      if "error" in results:
          return {"error": f"SerpAPI error: {results['error']}"}
      best_flights = results.get("best_flights", [])
      if not best_flights:
          return {"message": "No flights found."}
      parsed_flights = parse_flights(best_flights[:max_results])
      return {"best_flights": parsed_flights}
  \<close>
\<close>

definition google_flights_try :: "env \<Rightarrow> dict \<Rightarrow> int \<Rightarrow> pyexn + json" where
  "google_flights_try env params max_results =
     (let results = search_google env params in
      case map_of results (lit ''error'') of
        Some e \<Rightarrow> Inr (JObj [(lit ''error'', JStr ((lit ''SerpAPI error: '') @ py_str env e))])
      | None \<Rightarrow>
          (let best_flights = py_get_default results (lit ''best_flights'') (JList []) in
           if \<not> py_truthy best_flights then Inr (JObj [(lit ''message'', JStr (lit ''No flights found.''))])
           else
             then_do (sliced_items best_flights max_results) (\<lambda>items.
             then_do (parse_flights env items) (\<lambda>parsed_flights.
               Inr (JObj [(lit ''best_flights'', JList parsed_flights)])))))"

text \<open>
  \<^verbatim>\<open>google_flights(departure_airport, arrival_airport, departure_date, return_date=None,
  airline_name=None, travel_class="economy", max_price=None, max_results=5, passengers=1)\<close>.
  The \<^verbatim>\<open>except Exception as e\<close> of the handler turns an exception of the \<^verbatim>\<open>try\<close> body
  into \<^verbatim>\<open>{"error": f"Error searching flights: {str(e)}"}\<close>.
\<close>

definition google_flights ::
  "env \<Rightarrow> str \<Rightarrow> str \<Rightarrow> str \<Rightarrow> str option \<Rightarrow> str option \<Rightarrow> str option
   \<Rightarrow> int option \<Rightarrow> int \<Rightarrow> int option \<Rightarrow> run" where
  "google_flights env departure_airport arrival_airport departure_date return_date airline_name
       travel_class max_price max_results passengers =
     (let passengers = (case passengers of Some n \<Rightarrow> (if n \<noteq> 0 then n else 1) | None \<Rightarrow> 1) in
      case map_of TRAVEL_CLASS_MAP (travel_class_key (tables env) travel_class) of
        None \<Rightarrow> ([], Inr (invalid_travel_class travel_class))
      | Some travel_class_int \<Rightarrow>
          (let params = flights_params (tables env) departure_airport arrival_airport departure_date
                          return_date airline_name travel_class_int max_price passengers
           in case truthy_of (SERP_API_KEY env) of
                None \<Rightarrow>
                  ([], Inr (JObj [(lit ''error'',
                                   JStr (lit ''SERP_API_KEY environment variable is required''))]))
              | Some api_key \<Rightarrow>
                  (let params = AList.update (lit ''api_key'') (JStr api_key) params in
                   ([params],
                    (case google_flights_try env params max_results of
                       Inl e \<Rightarrow> Inr (JObj [(lit ''error'',
                                  JStr ((lit ''Error searching flights: '') @ str_exn env e))])
                     | Inr r \<Rightarrow> Inr r)))))"

section \<open>The finance handlers\<close>

text \<open>
  \<^verbatim>\<open>
  async def get_stock_quote(q, gl=None, hl=None):
      if not q.strip():
          return create_error_response(q, "Query cannot be empty")
      api_key = SERP_API_KEY
      if not api_key:
          return create_error_response(q, "SERP_API_KEY not configured")
      params = {"engine": "google_finance", "q": normalize_query(q), "api_key": api_key}
      if gl: params["gl"] = gl
      if hl: params["hl"] = hl
      data = await search_google(params)
      if "error" in data:
          return create_error_response(q, f"API Error: {data['error']}", "stock_quote")
      return create_success_response(q, data, "stock_quote")
  \<close>
  The default \<^verbatim>\<open>tool_type\<close> of both constructors is \<^verbatim>\<open>"stock_quote"\<close>.
\<close>

definition get_stock_quote :: "env \<Rightarrow> str \<Rightarrow> str option \<Rightarrow> str option \<Rightarrow> run" where
  "get_stock_quote env q gl hl =
     (if py_strip (tables env) q = [] then
        ([], Inr (create_error_response env q (lit ''Query cannot be empty'') (lit ''stock_quote'')))
      else
        (case truthy_of (SERP_API_KEY env) of
           None \<Rightarrow> ([], Inr (create_error_response env q (lit ''SERP_API_KEY not configured'')
                               (lit ''stock_quote'')))
         | Some api_key \<Rightarrow>
             (let params = [(lit ''engine'', JStr (lit ''google_finance'')),
                            (lit ''q'', JStr (normalize_query (tables env) q)),
                            (lit ''api_key'', JStr api_key)];
                  params = set_if_str (lit ''gl'') gl params;
                  params = set_if_str (lit ''hl'') hl params;
                  data = search_google env params
              in ([params],
                  Inr (case map_of data (lit ''error'') of
                         Some e \<Rightarrow> create_error_response env q ((lit ''API Error: '') @ py_str env e)
                                     (lit ''stock_quote'')
                       | None \<Rightarrow> create_success_response env q data (lit ''stock_quote''))))))"

definition valid_trends :: "str list" where
  "valid_trends = [(lit ''indexes''), (lit ''most-active''), (lit ''gainers''), (lit ''losers''), (lit ''climate-leaders''),
                   (lit ''cryptocurrencies''), (lit ''currencies'')]"

text \<open>\<^verbatim>\<open>get_market_data(trend="indexes", gl=None, hl=None)\<close>\<close>

definition get_market_data :: "env \<Rightarrow> str \<Rightarrow> str option \<Rightarrow> str option \<Rightarrow> run" where
  "get_market_data env trend gl hl =
     (if trend \<notin> set valid_trends then
        ([], Inr (create_error_response env trend
                    ((lit ''Invalid trend '') @ lit [CHR 0x27] @ trend @ lit [CHR 0x27] @ (lit ''. Valid trends: '')
                     @ py_join (lit '', '') valid_trends)
                    (lit ''market_data'')))
      else
        (case truthy_of (SERP_API_KEY env) of
           None \<Rightarrow> ([], Inr (create_error_response env trend (lit ''SERP_API_KEY not configured'')
                               (lit ''market_data'')))
         | Some api_key \<Rightarrow>
             (let params = [(lit ''engine'', JStr (lit ''google_finance_markets'')),
                            (lit ''trend'', JStr trend),
                            (lit ''api_key'', JStr api_key)];
                  params = set_if_str (lit ''gl'') gl params;
                  params = set_if_str (lit ''hl'') hl params;
                  data = search_google env params
              in ([params],
                  Inr (case map_of data (lit ''error'') of
                         Some e \<Rightarrow> create_error_response env trend
                                     ((lit ''API Error: '') @ py_str env e) (lit ''market_data'')
                       | None \<Rightarrow> create_success_response env trend data (lit ''market_data''))))))"

definition valid_periods :: "str list" where
  "valid_periods = [(lit ''1d''), (lit ''5d''), (lit ''1m''), (lit ''6m''), (lit ''ytd''), (lit ''1y''), (lit ''5y''), (lit ''max'')]"

text \<open>\<^verbatim>\<open>get_graph_data(q, period="1d", gl=None, hl=None)\<close>\<close>

definition get_graph_data ::
  "env \<Rightarrow> str \<Rightarrow> str \<Rightarrow> str option \<Rightarrow> str option \<Rightarrow> run" where
  "get_graph_data env q period gl hl =
     (if period \<notin> set valid_periods then
        ([], Inr (create_error_response env q
                    ((lit ''Invalid period '') @ lit [CHR 0x27] @ period @ lit [CHR 0x27]
                     @ (lit ''. Valid periods: '') @ py_join (lit '', '') valid_periods)
                    (lit ''graph_data'')))
      else
        (case truthy_of (SERP_API_KEY env) of
           None \<Rightarrow> ([], Inr (create_error_response env q (lit ''SERP_API_KEY not configured'')
                               (lit ''graph_data'')))
         | Some api_key \<Rightarrow>
             (let params = [(lit ''engine'', JStr (lit ''google_finance'')),
                            (lit ''q'', JStr q),
                            (lit ''period'', JStr period),
                            (lit ''api_key'', JStr api_key)];
                  params = set_if_str (lit ''gl'') gl params;
                  params = set_if_str (lit ''hl'') hl params;
                  data = search_google env params
              in ([params],
                  Inr (case map_of data (lit ''error'') of
                         Some e \<Rightarrow> create_error_response env q ((lit ''API Error: '') @ py_str env e)
                                     (lit ''graph_data'')
                       | None \<Rightarrow> create_success_response env q data (lit ''graph_data''))))))"

text \<open>\<^verbatim>\<open>compare_stocks(q, period="1d", gl=None, hl=None)\<close>\<close>

definition compare_stocks ::
  "env \<Rightarrow> str \<Rightarrow> str \<Rightarrow> str option \<Rightarrow> str option \<Rightarrow> run" where
  "compare_stocks env q period gl hl =
     (if period \<notin> set valid_periods then
        ([], Inr (create_error_response env q
                    ((lit ''Invalid period '') @ lit [CHR 0x27] @ period @ lit [CHR 0x27]
                     @ (lit ''. Valid periods: '') @ py_join (lit '', '') valid_periods)
                    (lit ''comparison'')))
      else
        (case truthy_of (SERP_API_KEY env) of
           None \<Rightarrow> ([], Inr (create_error_response env q (lit ''SERP_API_KEY not configured'')
                               (lit ''comparison'')))
         | Some api_key \<Rightarrow>
             (let params = [(lit ''engine'', JStr (lit ''google_finance'')),
                            (lit ''q'', JStr q),
                            (lit ''period'', JStr period),
                            (lit ''api_key'', JStr api_key)];
                  params = set_if_str (lit ''gl'') gl params;
                  params = set_if_str (lit ''hl'') hl params;
                  data = search_google env params
              in ([params],
                  Inr (case map_of data (lit ''error'') of
                         Some e \<Rightarrow> create_error_response env q ((lit ''API Error: '') @ py_str env e)
                                     (lit ''comparison'')
                       | None \<Rightarrow> create_success_response env q data (lit ''comparison''))))))"

definition valid_windows :: "str list" where
  "valid_windows = [(lit ''week''), (lit ''month''), (lit ''3month''), (lit ''6month''), (lit ''year'')]"

text \<open>\<^verbatim>\<open>get_financials(q, window=None, gl=None, hl=None)\<close>. This handler reads its
  credential at call time, \<^verbatim>\<open>api_key = os.getenv("SERP_API_K EY")\<close>, under a name with a
  space in it.\<close>

definition get_financials ::
  "env \<Rightarrow> str \<Rightarrow> str option \<Rightarrow> str option \<Rightarrow> str option \<Rightarrow> run" where
  "get_financials env q window gl hl =
     (if (case truthy_of window of Some w \<Rightarrow> w \<notin> set valid_windows | None \<Rightarrow> False) then
        ([], Inr (create_error_response env q
                    ((lit ''Invalid window '') @ lit [CHR 0x27] @ str_of_opt window @ lit [CHR 0x27]
                     @ (lit ''. Valid windows: '') @ py_join (lit '', '') valid_windows)
                    (lit ''financials'')))
      else
        (case truthy_of (getenv env (lit ''SERP_API_K EY'')) of
           None \<Rightarrow> ([], Inr (create_error_response env q (lit ''SERP_API_KEY not configured'')
                               (lit ''financials'')))
         | Some api_key \<Rightarrow>
             (let params = [(lit ''engine'', JStr (lit ''google_finance'')),
                            (lit ''q'', JStr q),
                            (lit ''api_key'', JStr api_key)];
                  params = set_if_str (lit ''window'') window params;
                  params = set_if_str (lit ''gl'') gl params;
                  params = set_if_str (lit ''hl'') hl params;
                  data = search_google env params
              in ([params],
                  Inr (case map_of data (lit ''error'') of
                         Some e \<Rightarrow> create_error_response env q ((lit ''API Error: '') @ py_str env e)
                                     (lit ''financials'')
                       | None \<Rightarrow> create_success_response env q data (lit ''financials''))))))"

definition valid_categories :: "str list" where
  "valid_categories = [(lit ''all''), (lit ''latest''), (lit ''opinion''), (lit ''press_releases'')]"

text \<open>
  \<^verbatim>\<open>get_stock_news(q, category=None, num=10, start=None, gl=None, hl=None)\<close>:
  \<^verbatim>\<open>
      if num < 1 or num > 100:
          return create_error_response(q, "Number of news items must be between 1 and 100", "news")
      if category and category not in valid_categories:
          return create_error_response(q, f"Invalid category ...", "news")
      api_key = SERP_API_KEY
      if not api_key:
          return create_error_response(q, "SERP_API_KEY not configured", "news")
      params = {"engine": "google_finance", "q": q, "api_key": api_key}
      if category and category != "all": params["category"] = category
      if num != 10: params["num"] = num
      if start: params["start"] = start
  \<close>
\<close>

definition get_stock_news ::
  "env \<Rightarrow> str \<Rightarrow> str option \<Rightarrow> int \<Rightarrow> int option \<Rightarrow> str option \<Rightarrow> str option
   \<Rightarrow> run" where
  "get_stock_news env q category num start gl hl =
     (if num < 1 \<or> num > 100 then
        ([], Inr (create_error_response env q
                    (lit ''Number of news items must be between 1 and 100'') (lit ''news'')))
      else if (case truthy_of category of Some c \<Rightarrow> c \<notin> set valid_categories | None \<Rightarrow> False)
      then
        ([], Inr (create_error_response env q
                    ((lit ''Invalid category '') @ lit [CHR 0x27] @ str_of_opt category @ lit [CHR 0x27]
                     @ (lit ''. Valid categories: '') @ py_join (lit '', '') valid_categories)
                    (lit ''news'')))
      else
        (case truthy_of (SERP_API_KEY env) of
           None \<Rightarrow> ([], Inr (create_error_response env q (lit ''SERP_API_KEY not configured'')
                               (lit ''news'')))
         | Some api_key \<Rightarrow>
             (let params = [(lit ''engine'', JStr (lit ''google_finance'')),
                            (lit ''q'', JStr q),
                            (lit ''api_key'', JStr api_key)];
                  params = (case truthy_of category of
                              Some c \<Rightarrow> (if c \<noteq> (lit ''all'')
                                         then AList.update (lit ''category'') (JStr c) params
                                         else params)
                            | None \<Rightarrow> params);
                  params = (if num \<noteq> 10 then AList.update (lit ''num'') (JInt num) params
                            else params);
                  params = set_if_int (lit ''start'') start params;
                  params = set_if_str (lit ''gl'') gl params;
                  params = set_if_str (lit ''hl'') hl params;
                  data = search_google env params
              in ([params],
                  Inr (case map_of data (lit ''error'') of
                         Some e \<Rightarrow> create_error_response env q ((lit ''API Error: '') @ py_str env e)
                                     (lit ''news'')
                       | None \<Rightarrow> create_success_response env q data (lit ''news''))))))"

text \<open>
  \<^verbatim>\<open>debug_api_response(q, engine="google_finance", gl=None, hl=None)\<close>:
  \<^verbatim>\<open>
      params = {"engine": engine, "api_key": api_key}
      if engine == "google_finance":
          params["q"] = q
      elif engine == "google_finance_markets":
          params["trend"] = q
  \<close>
  and on success the dictionary literal with the extra field \<^verbatim>\<open>engine\<close>.
\<close>

definition debug_api_response ::
  "env \<Rightarrow> str \<Rightarrow> str \<Rightarrow> str option \<Rightarrow> str option \<Rightarrow> run" where
  "debug_api_response env q engine gl hl =
     (case truthy_of (SERP_API_KEY env) of
        None \<Rightarrow> ([], Inr (create_error_response env q (lit ''SERP_API_KEY not configured'') (lit ''debug'')))
      | Some api_key \<Rightarrow>
          (let params = [(lit ''engine'', JStr engine), (lit ''api_key'', JStr api_key)];
               params = (if engine = (lit ''google_finance'') then AList.update (lit ''q'') (JStr q) params
                         else if engine = (lit ''google_finance_markets'')
                         then AList.update (lit ''trend'') (JStr q) params
                         else params);
               params = set_if_str (lit ''gl'') gl params;
               params = set_if_str (lit ''hl'') hl params;
               data = search_google env params
           in ([params],
               Inr (case map_of data (lit ''error'') of
                      Some e \<Rightarrow> create_error_response env q
                                  ((lit ''Debug API Error: '') @ py_str env e) (lit ''debug'')
                    | None \<Rightarrow>
                        JObj [(lit ''tool'', JStr (lit ''debug'')),
                              (lit ''query'', JStr q),
                              (lit ''engine'', JStr engine),
                              (lit ''timestamp'', JStr (now_isoformat env)),
                              (lit ''success'', JBool True),
                              (lit ''api_response'', JObj data)]))))"

section \<open>Notions of the specification\<close>

text \<open>The part of a query before its first colon and the part after it.\<close>

definition colon_left :: "str \<Rightarrow> str" where
  "colon_left q = takeWhile (\<lambda>c. c \<noteq> (Chr CHR '':'')) q"

definition colon_right :: "str \<Rightarrow> str" where
  "colon_right q = tl (dropWhile (\<lambda>c. c \<noteq> (Chr CHR '':'')) q)"

text \<open>"Entirely uppercase letters", in the specification's words: every character is one
  of \<open>A\<close> to \<open>Z\<close>.\<close>

definition only_upper_letters :: "str \<Rightarrow> bool" where
  "only_upper_letters s = list_all (\<lambda>c. c \<in> set upper_letters) s"

text \<open>A returned value's field, and whether it has the field.\<close>

definition field :: "json \<Rightarrow> str \<Rightarrow> json option" where
  "field r k = (case r of JObj d \<Rightarrow> map_of d k | _ \<Rightarrow> None)"

definition has_field :: "json \<Rightarrow> str \<Rightarrow> bool" where
  "has_field r k = (field r k \<noteq> None)"

text \<open>The envelope invariant: exactly one of \<open>api_response\<close> and \<open>error\<close> is present, and
  \<open>success\<close> is the boolean that says whether \<open>api_response\<close> is.\<close>

definition envelope_ok :: "json \<Rightarrow> bool" where
  "envelope_ok r =
     (has_field r (lit ''api_response'') \<noteq> has_field r (lit ''error'')
      \<and> field r (lit ''success'') = Some (JBool (has_field r (lit ''api_response''))))"

text \<open>An error result: a mapping with the field \<open>error\<close>.\<close>

definition is_error_result :: "json \<Rightarrow> bool" where
  "is_error_result r = has_field r (lit ''error'')"

text \<open>The gateway failed on a request: the call raised, or the body reports an error in
  band.\<close>

definition gateway_failed :: "env \<Rightarrow> dict \<Rightarrow> bool" where
  "gateway_failed env params =
     (case get_dict env params of Inl e \<Rightarrow> True | Inr results \<Rightarrow> map_of results (lit ''error'') \<noteq> None)"

text \<open>A run ends well at the handler's boundary: the handler returned a value, and that
  value is an error result whenever the handler sent nothing (a validation or
  configuration error stopped it) or the gateway failed on a request it sent.\<close>

definition returns_safely :: "env \<Rightarrow> run \<Rightarrow> bool" where
  "returns_safely env out =
     (case snd out of
        Inl e \<Rightarrow> False
      | Inr r \<Rightarrow>
          (if fst out = [] \<or> list_ex (gateway_failed env) (fst out) then is_error_result r
           else True))"

text \<open>An itinerary group without legs: a mapping whose \<open>flights\<close> is absent or falsy.\<close>

definition no_legs :: "json \<Rightarrow> bool" where
  "no_legs g = (case g of JObj d \<Rightarrow> \<not> py_truthy (py_get_default d (lit ''flights'') (JList []))
                        | _ \<Rightarrow> False)"

text \<open>The parser flattens group \<open>g\<close> into record \<open>r\<close>.\<close>

definition flattens :: "env \<Rightarrow> json \<Rightarrow> json \<Rightarrow> bool" where
  "flattens env g r = (parse_flight env g = Inr (Some r))"

text \<open>A travel class matches a table alias "case/hyphen/underscore-insensitively", in the
  specification's words: the two are equal once letters are lowercased and hyphens read as
  underscores.\<close>

definition fold_alias :: "unicode \<Rightarrow> str \<Rightarrow> str" where
  "fold_alias u s = py_replace (Chr CHR ''-'') (Chr CHR ''_'') (py_lower u s)"

definition alias_match :: "unicode \<Rightarrow> str \<Rightarrow> bool" where
  "alias_match u s = list_ex (\<lambda>k. fold_alias u s = fold_alias u k) (map fst TRAVEL_CLASS_MAP)"

section \<open>Example inputs\<close>

text \<open>
  An excerpt of the Unicode character database, as Python has it: the white space beyond
  ASCII (U+0085, U+00A0, U+1680, U+2000 to U+200A, U+2028, U+2029, U+202F, U+205F and
  U+3000), the uppercase letter U+00C9 and its lowercase U+00E9, the titlecase letter
  U+01C5, and the digit U+00B2 (superscript two).
\<close>

definition example_spaces :: str where
  "example_spaces =
     [Chr (CHR 0x85), Chr (CHR 0xA0), Wide 0x1580,
      Wide 0x1F00, Wide 0x1F01, Wide 0x1F02, Wide 0x1F03, Wide 0x1F04, Wide 0x1F05,
      Wide 0x1F06, Wide 0x1F07, Wide 0x1F08, Wide 0x1F09, Wide 0x1F0A,
      Wide 0x1F28, Wide 0x1F29, Wide 0x1F2F, Wide 0x1F5F, Wide 0x2F00]"

definition example_tables :: unicode where
  "example_tables =
     \<lparr>uni_isupper = (\<lambda>c. c = Chr (CHR 0xC9)),
      uni_islower = (\<lambda>c. c = Chr (CHR 0xE9)),
      uni_istitle = (\<lambda>c. c = Wide 0xC5),
      uni_isdigit = (\<lambda>c. c = Chr (CHR 0xB2)),
      uni_isspace = (\<lambda>c. c \<in> set example_spaces),
      uni_lower = map (\<lambda>c. if c = Chr (CHR 0xC9) then Chr (CHR 0xE9) else lower_char c),
      uni_upper = map (\<lambda>c. if c = Chr (CHR 0xE9) then Chr (CHR 0xC9) else upper_char c)\<rparr>"

text \<open>An environment with the given credential whose gateway answers every request with
  the given reply, and whose record class accepts every record as it is.\<close>

definition example_env :: "str option \<Rightarrow> pyexn + dict \<Rightarrow> env" where
  "example_env key reply =
     \<lparr>SERP_API_KEY = key,
      getenv = (\<lambda>name. if name = (lit ''SERP_API_KEY'') then key else None),
      tables = example_tables,
      get_dict = (\<lambda>params. reply),
      now_isoformat = (lit ''2025-06-01T12:00:00''),
      repr_json = (\<lambda>v. (lit ''<value>'')),
      str_exn = (\<lambda>e. (lit ''<exception>'')),
      FlightDetails_dict = (\<lambda>kwargs. Inr (JObj kwargs))\<rparr>"

text \<open>A group without legs, and a group of one leg with its price.\<close>

definition group_without_legs :: json where
  "group_without_legs = JObj [(lit ''flights'', JList []), (lit ''price'', JInt 90)]"

definition group_with_leg :: json where
  "group_with_leg =
     JObj [(lit ''flights'',
            JList [JObj [(lit ''departure_airport'',
                          JObj [(lit ''id'', JStr (lit ''JFK'')), (lit ''time'', JStr (lit ''2025-06-01 08:00''))]),
                         (lit ''arrival_airport'',
                          JObj [(lit ''id'', JStr (lit ''LAX'')), (lit ''time'', JStr (lit ''2025-06-01 11:30''))]),
                         (lit ''airline'', JStr (lit ''Delta''))]]),
           (lit ''price'', JInt 320)]"

text \<open>The default arguments of \<^verbatim>\<open>google_flights("jfk", "lax", "2025-06-01")\<close>, with the
  travel class and the maximum count left open.\<close>

definition example_search :: "env \<Rightarrow> str option \<Rightarrow> int \<Rightarrow> run" where
  "example_search env travel_class max_results =
     google_flights env (lit ''jfk'') (lit ''lax'') (lit ''2025-06-01'') None None travel_class None max_results
       (Some 1)"

section \<open>Properties of string literals\<close>

lemma lit_eq_iff [simp]: "lit a = lit b \<longleftrightarrow> a = b"
  by (simp add: lit_def inj_map_eq_map inj_on_def)

lemma lit_eq_Nil_iff [simp]: "lit a = [] \<longleftrightarrow> a = []"
  by (simp add: lit_def)

lemma Nil_eq_lit_iff [simp]: "[] = lit a \<longleftrightarrow> a = []"
  by (simp add: lit_def)

lemma lit_Cons_append_eq:
  "lit (a # s) @ x = lit (b # t) \<longleftrightarrow> a = b \<and> lit s @ x = lit t"
  by (simp add: lit_def)

section \<open>Properties of the query normalizer\<close>

lemma split_on_not_Nil: "split_on sep s \<noteq> []"
  by (induction s) (auto split: list.splits)

lemma length_split_on: "length (split_on sep s) = Suc (count_list s sep)"
  by (induction s) (auto split: list.splits simp: split_on_not_Nil)

lemma split_on_no_sep: "sep \<notin> set s \<Longrightarrow> split_on sep s = [s]"
  by (induction s) auto

lemma split_on_append: "sep \<notin> set a \<Longrightarrow> split_on sep (a @ sep # b) = a # split_on sep b"
  by (induction a) auto

lemma split_on_one:
  assumes "count_list q sep = 1"
  shows "split_on sep q = [takeWhile (\<lambda>c. c \<noteq> sep) q, tl (dropWhile (\<lambda>c. c \<noteq> sep) q)]"
proof -
  let ?a = "takeWhile (\<lambda>c. c \<noteq> sep) q" and ?d = "dropWhile (\<lambda>c. c \<noteq> sep) q"
  have mem: "sep \<in> set q" using assms count_list_0_iff [of q sep] by auto
  then have d: "?d = sep # tl ?d"
    by (metis (mono_tags, lifting) dropWhile_eq_Nil_conv hd_dropWhile list.collapse)
  have q: "q = ?a @ sep # tl ?d" using d by (metis takeWhile_dropWhile_id)
  have a: "sep \<notin> set ?a" by (auto dest: set_takeWhileD)
  have "count_list q sep = count_list ?a sep + Suc (count_list (tl ?d) sep)"
    by (subst q) simp
  then have "count_list (tl ?d) sep = 0" using assms a count_list_0_iff [of ?a sep] by simp
  then have b: "sep \<notin> set (tl ?d)" by (simp add: count_list_0_iff)
  have "split_on sep q = split_on sep (?a @ sep # tl ?d)" using q by simp
  also have "\<dots> = ?a # split_on sep (tl ?d)" using a by (rule split_on_append)
  also have "\<dots> = [?a, tl ?d]" using b by (simp add: split_on_no_sep)
  finally show ?thesis .
qed

text \<open>The normalizer by cases: a query with exactly one colon whose left part is uppercase
  for \<^verbatim>\<open>isupper\<close> and has no digit is swapped; every other query is returned as it
  is.\<close>

lemma normalize_query_cases:
  "normalize_query u q =
     (if count_list q (Chr CHR '':'') = 1 \<and> py_isupper u (colon_left q)
         \<and> \<not> any_isdigit u (colon_left q)
      then colon_right q @ lit '':'' @ colon_left q else q)"
proof (cases "count_list q (Chr CHR '':'') = 1")
  case True
  then have "Chr CHR '':'' \<in> set q" using count_list_0_iff [of q "Chr CHR '':''"] by auto
  then show ?thesis using True
    by (simp add: normalize_query_def split_on_one colon_left_def colon_right_def)
next
  case False
  then have "length (split_on (Chr CHR '':'') q) \<noteq> 2" by (simp add: length_split_on)
  then show ?thesis using False
    by (auto simp: normalize_query_def split: list.splits)
qed

lemmas char_class_defs =
  lit_def is_ascii_def is_upper_char_def is_lower_char_def is_title_char_def is_digit_char_def
  is_space_char_def upper_letters_def lower_letters_def digit_chars_def space_chars_def

lemma capital_classes:
  "c \<in> set upper_letters \<Longrightarrow>
   is_upper_char u c \<and> \<not> is_lower_char u c \<and> \<not> is_title_char u c \<and> \<not> is_digit_char u c"
  by (auto simp: char_class_defs)

lemma only_upper_letters_isupper:
  "only_upper_letters s \<Longrightarrow> s \<noteq> [] \<Longrightarrow> py_isupper u s \<and> \<not> any_isdigit u s"
  by (cases s)
     (auto simp: only_upper_letters_def py_isupper_def any_isdigit_def list_all_iff list_ex_iff
           dest: capital_classes)

lemma map_of_set_if_str:
  "k' \<noteq> k \<Longrightarrow> map_of (set_if_str k v params) k' = map_of params k'"
  by (simp add: set_if_str_def update_conv' split: option.splits)

lemma map_of_set_if_int:
  "k' \<noteq> k \<Longrightarrow> map_of (set_if_int k v params) k' = map_of params k'"
  by (simp add: set_if_int_def update_conv' split: option.splits)

lemma truthy_of_Some: "k \<noteq> [] \<Longrightarrow> truthy_of (Some k) = Some k"
  by (simp add: truthy_of_def)

lemma get_stock_quote_sends_normalized:
  assumes "py_strip (tables env) q \<noteq> []" and "SERP_API_KEY env = Some k" and "k \<noteq> []"
  shows "\<exists>p. fst (get_stock_quote env q gl hl) = [p]
            \<and> map_of p (lit ''q'') = Some (JStr (normalize_query (tables env) q))"
  using assms by (simp add: get_stock_quote_def truthy_of_Some Let_def map_of_set_if_str)

lemmas string_eval_defs =
  normalize_query_def py_isupper_def any_isdigit_def char_class_defs py_strip_def
  colon_left_def colon_right_def only_upper_letters_def example_tables_def
  example_spaces_def

text \<open>
  Claim C1, as the code has it. For every query and whatever the character database,
  \<open>normalize_query\<close> returns the part after the colon, a colon and the part before it
  exactly when the query has one colon and the part before it is uppercase for
  \<^verbatim>\<open>isupper\<close> (it has an uppercase character and no lowercase or titlecase one) and has
  no digit; other characters, such as a dot, a hyphen or a space, do not matter. It
  returns every other query unchanged. In particular a left part made of the letters
  \<open>A\<close> to \<open>Z\<close> only is swapped. And \<open>get_stock_quote\<close>, given a query that is not white
  space only and a credential, sends one request whose \<open>q\<close> is the normalized query.
\<close>

theorem normalize_query_swap_or_identity:
  "normalize_query u q =
     (if count_list q (Chr CHR '':'') = 1 \<and> py_isupper u (colon_left q)
         \<and> \<not> any_isdigit u (colon_left q)
      then colon_right q @ lit '':'' @ colon_left q else q)
   \<and> (count_list q (Chr CHR '':'') = 1 \<and> colon_left q \<noteq> []
       \<and> only_upper_letters (colon_left q)
        \<longrightarrow> normalize_query u q = colon_right q @ lit '':'' @ colon_left q)
   \<and> (py_strip (tables env) q \<noteq> [] \<and> SERP_API_KEY env = Some k \<and> k \<noteq> []
        \<longrightarrow> (\<exists>p. fst (get_stock_quote env q gl hl) = [p]
                 \<and> map_of p (lit ''q'') = Some (JStr (normalize_query (tables env) q))))"
proof (intro conjI impI)
  show "normalize_query u q =
     (if count_list q (Chr CHR '':'') = 1 \<and> py_isupper u (colon_left q)
         \<and> \<not> any_isdigit u (colon_left q)
      then colon_right q @ lit '':'' @ colon_left q else q)"
    by (rule normalize_query_cases)
next
  assume "count_list q (Chr CHR '':'') = 1 \<and> colon_left q \<noteq> []
          \<and> only_upper_letters (colon_left q)"
  then show "normalize_query u q = colon_right q @ lit '':'' @ colon_left q"
    using only_upper_letters_isupper [of "colon_left q" u]
    by (simp add: normalize_query_cases)
next
  assume "py_strip (tables env) q \<noteq> [] \<and> SERP_API_KEY env = Some k \<and> k \<noteq> []"
  then show "\<exists>p. fst (get_stock_quote env q gl hl) = [p]
                 \<and> map_of p (lit ''q'') = Some (JStr (normalize_query (tables env) q))"
    by (elim conjE) (rule get_stock_quote_sends_normalized)
qed

text \<open>The scenario of the claim, and two queries beyond ASCII: the left part U+00C9 is
  uppercase, so the query is swapped; the left part \<open>A\<close> with the digit U+00B2 is not.\<close>

theorem normalize_query_swap_or_identity_witness:
  "count_list (lit ''NASDAQ:AAPL'') (Chr CHR '':'') = 1
   \<and> only_upper_letters (colon_left (lit ''NASDAQ:AAPL''))
   \<and> normalize_query example_tables (lit ''NASDAQ:AAPL'') = lit ''AAPL:NASDAQ''
   \<and> normalize_query example_tables (Chr (CHR 0xC9) # lit '':NYSE'')
       = lit ''NYSE:'' @ [Chr (CHR 0xC9)]
   \<and> normalize_query example_tables (lit ''A'' @ [Chr (CHR 0xB2)] @ lit '':X'')
       = lit ''A'' @ [Chr (CHR 0xB2)] @ lit '':X''
   \<and> py_strip example_tables (lit ''NASDAQ:AAPL'') \<noteq> []
   \<and> SERP_API_KEY (example_env (Some (lit ''secret'')) (Inr [])) = Some (lit ''secret'')
   \<and> (\<exists>p. fst (get_stock_quote (example_env (Some (lit ''secret'')) (Inr []))
                  (lit ''NASDAQ:AAPL'') None None) = [p]
          \<and> map_of p (lit ''q'') = Some (JStr (lit ''AAPL:NASDAQ'')))"
  using normalize_query_swap_or_identity
          [of example_tables "lit ''NASDAQ:AAPL''" "example_env (Some (lit ''secret'')) (Inr [])"
              "lit ''secret''" None None]
  by (simp add: string_eval_defs example_env_def)

lemma normalize_query_dotted_symbol:
  "normalize_query u (lit ''BRK.B:NYSE'') = lit ''NYSE:BRK.B''"
  by (simp add: normalize_query_def py_isupper_def any_isdigit_def char_class_defs)

text \<open>The claim's "every other input is returned unchanged" fails when the left part is
  not made of uppercase letters only but is uppercase for Python: \<open>BRK.B:NYSE\<close> has one
  colon, its left part holds a dot, and the normalizer swaps it. The query is ASCII, so
  this is so whatever the character database.\<close>

theorem normalize_query_punctuation_counterexample:
  "count_list (lit ''BRK.B:NYSE'') (Chr CHR '':'') = 1
   \<and> \<not> only_upper_letters (colon_left (lit ''BRK.B:NYSE''))
   \<and> \<not> list_all (is_upper_char example_tables) (colon_left (lit ''BRK.B:NYSE''))
   \<and> normalize_query example_tables (lit ''BRK.B:NYSE'') = lit ''NYSE:BRK.B''
   \<and> normalize_query example_tables (lit ''BRK.B:NYSE'') \<noteq> lit ''BRK.B:NYSE''"
  by (simp add: string_eval_defs)

text \<open>
  Claim C2: the normalizer is idempotent, and a query in the form symbol:exchange is not
  swapped again. The code does swap it again: both parts of \<open>AAPL:NASDAQ\<close> are uppercase
  and free of digits, so each pass exchanges them, and two passes give back the input of
  the first.
\<close>

theorem normalize_query_not_idempotent:
  "normalize_query u (lit ''AAPL:NASDAQ'') = lit ''NASDAQ:AAPL''
   \<and> normalize_query u (lit ''NASDAQ:AAPL'') = lit ''AAPL:NASDAQ''
   \<and> normalize_query u (normalize_query u (lit ''NASDAQ:AAPL''))
       \<noteq> normalize_query u (lit ''NASDAQ:AAPL'')"
  by (simp add: normalize_query_def py_isupper_def any_isdigit_def char_class_defs)

section \<open>Properties of the response envelopes\<close>

lemma envelope_ok_error: "envelope_ok (create_error_response env q e t)"
  by (simp add: envelope_ok_def create_error_response_def has_field_def field_def)

lemma envelope_ok_success: "envelope_ok (create_success_response env q d t)"
  by (simp add: envelope_ok_def create_success_response_def has_field_def field_def)

lemma get_stock_quote_envelope: "\<exists>r. snd (get_stock_quote env q gl hl) = Inr r \<and> envelope_ok r"
  by (simp add: get_stock_quote_def envelope_ok_error envelope_ok_success Let_def split: option.splits)

lemma get_market_data_envelope: "\<exists>r. snd (get_market_data env trend gl hl) = Inr r \<and> envelope_ok r"
  by (simp add: get_market_data_def envelope_ok_error envelope_ok_success Let_def split: option.splits)

lemma get_graph_data_envelope: "\<exists>r. snd (get_graph_data env q period gl hl) = Inr r \<and> envelope_ok r"
  by (simp add: get_graph_data_def envelope_ok_error envelope_ok_success Let_def split: option.splits)

lemma compare_stocks_envelope: "\<exists>r. snd (compare_stocks env q period gl hl) = Inr r \<and> envelope_ok r"
  by (simp add: compare_stocks_def envelope_ok_error envelope_ok_success Let_def split: option.splits)

lemma get_financials_envelope: "\<exists>r. snd (get_financials env q window gl hl) = Inr r \<and> envelope_ok r"
  by (simp add: get_financials_def envelope_ok_error envelope_ok_success Let_def split: option.splits)

lemma get_stock_news_envelope:
  "\<exists>r. snd (get_stock_news env q category num start gl hl) = Inr r \<and> envelope_ok r"
  by (simp add: get_stock_news_def envelope_ok_error envelope_ok_success Let_def split: option.splits)

lemma envelope_ok_debug:
  "envelope_ok (JObj [(lit ''tool'', JStr (lit ''debug'')), (lit ''query'', JStr q), (lit ''engine'', JStr engine),
                      (lit ''timestamp'', JStr t), (lit ''success'', JBool True),
                      (lit ''api_response'', JObj data)])"
  by (simp add: envelope_ok_def has_field_def field_def)

lemma debug_api_response_envelope:
  "\<exists>r. snd (debug_api_response env q engine gl hl) = Inr r \<and> envelope_ok r"
  by (simp add: debug_api_response_def envelope_ok_error envelope_ok_debug Let_def
           split: option.splits)

lemma google_flights_try_fields:
  "google_flights_try env params n = Inr r \<Longrightarrow> \<not> has_field r (lit ''success'') \<and> \<not> has_field r (lit ''api_response'')"
  by (auto simp: google_flights_try_def Let_def then_do_def has_field_def field_def
         split: option.splits sum.splits if_splits)

lemma google_flights_bare:
  "\<exists>r. snd (google_flights env a b d rd al tc mp n ps) = Inr r
       \<and> \<not> has_field r (lit ''success'') \<and> \<not> has_field r (lit ''api_response'')"
  by (auto simp: google_flights_def Let_def invalid_travel_class_def has_field_def field_def
         dest: google_flights_try_fields split: option.splits sum.splits)

lemmas flights_eval_defs =
  example_search_def example_env_def google_flights_def google_flights_try_def
  flights_params_def travel_class_key_def TRAVEL_CLASS_MAP_def truthy_of_def
  set_if_str_def set_if_int_def search_google_def py_get_default_def py_get_def
  py_upper_def upper_char_def py_lower_def lower_char_def py_replace_def py_strip_def
  char_class_defs example_tables_def example_spaces_def then_do_def Let_def

text \<open>
  Claim C3, as the code has it. Both envelope constructors, and every value returned by
  the seven finance handlers (quote, market data, graph data, comparison, financials,
  news, debug), carry exactly one of \<open>api_response\<close> and \<open>error\<close>, with \<open>success\<close> true
  exactly when \<open>api_response\<close> is the one present. The flight search handler builds no
  envelope: what it returns has neither a \<open>success\<close> nor an \<open>api_response\<close> field.
\<close>

theorem finance_envelopes_well_formed:
  "envelope_ok (create_error_response env q e t)
   \<and> envelope_ok (create_success_response env q data t)
   \<and> (\<exists>r. snd (get_stock_quote env q gl hl) = Inr r \<and> envelope_ok r)
   \<and> (\<exists>r. snd (get_market_data env trend gl hl) = Inr r \<and> envelope_ok r)
   \<and> (\<exists>r. snd (get_graph_data env q period gl hl) = Inr r \<and> envelope_ok r)
   \<and> (\<exists>r. snd (compare_stocks env q period gl hl) = Inr r \<and> envelope_ok r)
   \<and> (\<exists>r. snd (get_financials env q window gl hl) = Inr r \<and> envelope_ok r)
   \<and> (\<exists>r. snd (get_stock_news env q category num start gl hl) = Inr r \<and> envelope_ok r)
   \<and> (\<exists>r. snd (debug_api_response env q engine gl hl) = Inr r \<and> envelope_ok r)
   \<and> (\<exists>r. snd (google_flights env dep arr day back airline cls price n pax) = Inr r
            \<and> \<not> has_field r (lit ''success'') \<and> \<not> has_field r (lit ''api_response''))"
  by (intro conjI envelope_ok_error envelope_ok_success get_stock_quote_envelope
        get_market_data_envelope get_graph_data_envelope compare_stocks_envelope
        get_financials_envelope get_stock_news_envelope debug_api_response_envelope
        google_flights_bare)

theorem finance_envelopes_well_formed_witness:
  "envelope_ok (create_error_response (example_env None (Inr [])) (lit ''AAPL'')
                  (lit ''SERP_API_KEY not configured'') (lit ''news''))
   \<and> snd (get_stock_news (example_env None (Inr [])) (lit ''AAPL'') None 10 None None None)
       = Inr (create_error_response (example_env None (Inr [])) (lit ''AAPL'')
                (lit ''SERP_API_KEY not configured'') (lit ''news''))
   \<and> snd (example_search (example_env None (Inr [])) (Some (lit ''economy'')) 5)
       = Inr (JObj [(lit ''error'', JStr (lit ''SERP_API_KEY environment variable is required''))])"
  using finance_envelopes_well_formed
          [of "example_env None (Inr [])" "(lit ''AAPL'')" "(lit ''SERP_API_KEY not configured'')" "(lit ''news'')"
              "[]" None None "(lit ''indexes'')" "(lit ''1d'')" None None 10 None "(lit ''google_finance'')"
              "(lit ''jfk'')" "(lit ''lax'')" "(lit ''2025-06-01'')" None None "Some (lit ''economy'')" None 5 "Some 1"]
  by (simp add: get_stock_news_def flights_eval_defs)

text \<open>The invariant does not hold for every handler: without a credential the flight
  search returns a mapping with \<open>error\<close> and no \<open>success\<close>, and on an empty result a
  mapping with \<open>message\<close> only.\<close>

theorem google_flights_envelope_counterexample:
  "snd (example_search (example_env None (Inr [])) (Some (lit ''economy'')) 5)
     = Inr (JObj [(lit ''error'', JStr (lit ''SERP_API_KEY environment variable is required''))])
   \<and> \<not> envelope_ok (JObj [(lit ''error'', JStr (lit ''SERP_API_KEY environment variable is required''))])
   \<and> snd (example_search (example_env (Some (lit ''secret'')) (Inr [])) (Some (lit ''economy'')) 5)
     = Inr (JObj [(lit ''message'', JStr (lit ''No flights found.''))])
   \<and> \<not> envelope_ok (JObj [(lit ''message'', JStr (lit ''No flights found.''))])"
  by (simp add: flights_eval_defs envelope_ok_def has_field_def field_def)

section \<open>Properties of the flight result parser\<close>

lemma no_legs_skipped: "no_legs g \<Longrightarrow> parse_flight env g = Inr None"
  by (cases g) (simp_all add: no_legs_def parse_flight_def then_do_def)

lemma flattens_has_legs: "flattens env g r \<Longrightarrow> \<not> no_legs g"
  using no_legs_skipped [of g env] by (auto simp: flattens_def)

lemma parse_flights_loop_records:
  "\<forall>g\<in>set gs. no_legs g \<or> (\<exists>r. flattens env g r) \<Longrightarrow>
   \<exists>rs. parse_flights_loop env acc gs = Inr (acc @ rs)
        \<and> list_all2 (flattens env) (filter (\<lambda>g. \<not> no_legs g) gs) rs"
proof (induction gs arbitrary: acc)
  case Nil
  then show ?case by simp
next
  case (Cons g gs)
  from Cons.prems have rest: "\<forall>g\<in>set gs. no_legs g \<or> (\<exists>r. flattens env g r)" by simp
  show ?case
  proof (cases "no_legs g")
    case True
    then show ?thesis using Cons.IH [OF rest, of acc] by (simp add: no_legs_skipped)
  next
    case False
    with Cons.prems obtain r where r: "flattens env g r" by auto
    from Cons.IH [OF rest, of "acc @ [r]"] obtain rs where
      rs: "parse_flights_loop env (acc @ [r]) gs = Inr ((acc @ [r]) @ rs)"
          "list_all2 (flattens env) (filter (\<lambda>g. \<not> no_legs g) gs) rs"
      by blast
    have "parse_flights_loop env acc (g # gs) = Inr (acc @ r # rs)"
      using r rs(1) by (simp add: flattens_def)
    moreover have "list_all2 (flattens env) (filter (\<lambda>g. \<not> no_legs g) (g # gs)) (r # rs)"
      using False r rs(2) by simp
    ultimately show ?thesis by blast
  qed
qed

lemma parse_flights_records:
  "\<forall>g\<in>set gs. no_legs g \<or> (\<exists>r. flattens env g r) \<Longrightarrow>
   \<exists>rs. parse_flights env gs = Inr rs
        \<and> list_all2 (flattens env) (filter (\<lambda>g. \<not> no_legs g) gs) rs"
  using parse_flights_loop_records [of gs env "[]"] by (simp add: parse_flights_def)

lemma google_flights_sent:
  "fst (google_flights env dep arr day back airline cls price n pax) = [p] \<Longrightarrow>
   snd (google_flights env dep arr day back airline cls price n pax) =
     Inr (case google_flights_try env p n of
            Inl e \<Rightarrow> JObj [(lit ''error'', JStr ((lit ''Error searching flights: '') @ str_exn env e))]
          | Inr r \<Rightarrow> r)"
  by (auto simp: google_flights_def Let_def split: option.splits sum.splits)

lemma google_flights_try_parses:
  assumes "get_dict env p = Inr results" and "map_of results (lit ''error'') = None"
    and "map_of results (lit ''best_flights'') = Some (JList groups)" and "groups \<noteq> []" and "0 \<le> n"
  shows "google_flights_try env p n =
           then_do (parse_flights env (take (nat n) groups))
             (\<lambda>records. Inr (JObj [(lit ''best_flights'', JList records)]))"
  using assms
  by (simp add: google_flights_try_def search_google_def py_get_default_def then_do_def
        slice_to_def Let_def)

lemmas parser_eval_defs =
  parse_flights_def parse_flight_def departure_date_of_def py_split_def
  group_with_leg_def group_without_legs_def no_legs_def flattens_def slice_to_def

text \<open>
  Claim C4, as the code has it. When the flight search sends its request and the gateway
  answers with a non-empty list of \<open>K\<close> groups under \<open>best_flights\<close>, and the requested
  maximum \<open>n\<close> is not negative, the handler keeps the first \<open>n\<close> groups and parses those:
  if each of them is either without legs or flattens into a record, the output holds the
  records of the groups with legs among the first \<open>n\<close>, one for one and in the order of
  the input. When every group has a leg, that is exactly \<open>min K n\<close> records. A group
  without legs gives no record, but it is one of the first \<open>n\<close>: it counts toward the cap.
\<close>

theorem google_flights_records_in_order:
  assumes sent: "fst (google_flights env dep arr day back airline cls price n pax) = [p]"
    and reply: "get_dict env p = Inr results" "map_of results (lit ''error'') = None"
               "map_of results (lit ''best_flights'') = Some (JList groups)" "groups \<noteq> []"
    and cap: "0 \<le> n"
    and parsed: "\<forall>g\<in>set (take (nat n) groups). no_legs g \<or> (\<exists>r. flattens env g r)"
  shows "\<exists>records.
           snd (google_flights env dep arr day back airline cls price n pax)
             = Inr (JObj [(lit ''best_flights'', JList records)])
           \<and> list_all2 (flattens env)
                (filter (\<lambda>g. \<not> no_legs g) (take (nat n) groups)) records
           \<and> ((\<forall>g\<in>set groups. \<not> no_legs g)
                \<longrightarrow> length records = min (length groups) (nat n))"
proof -
  from parse_flights_records [OF parsed] obtain records where
    rs: "parse_flights env (take (nat n) groups) = Inr records"
        "list_all2 (flattens env) (filter (\<lambda>g. \<not> no_legs g) (take (nat n) groups)) records"
    by blast
  have "google_flights_try env p n = Inr (JObj [(lit ''best_flights'', JList records)])"
    using google_flights_try_parses [OF reply cap] rs(1) by (simp add: then_do_def)
  then have ret: "snd (google_flights env dep arr day back airline cls price n pax)
                    = Inr (JObj [(lit ''best_flights'', JList records)])"
    using google_flights_sent [OF sent] by simp
  have len: "length records = min (length groups) (nat n)" if all: "\<forall>g\<in>set groups. \<not> no_legs g"
  proof -
    have "\<forall>g\<in>set (take (nat n) groups). \<not> no_legs g"
      using all by (auto dest: in_set_takeD)
    then have "filter (\<lambda>g. \<not> no_legs g) (take (nat n) groups) = take (nat n) groups"
      by (simp add: filter_id_conv)
    then have "length records = length (take (nat n) groups)"
      using rs(2) by (simp add: list_all2_lengthD [symmetric])
    then show ?thesis by simp
  qed
  show ?thesis using ret rs(2) len by blast
qed


theorem google_flights_records_in_order_witness:
  "\<not> no_legs group_with_leg
   \<and> (\<exists>records.
         snd (example_search
                (example_env (Some (lit ''secret''))
                   (Inr [(lit ''best_flights'',
                          JList [group_with_leg, group_with_leg, group_with_leg])]))
                (Some (lit ''economy'')) 2)
           = Inr (JObj [(lit ''best_flights'', JList records)])
         \<and> list_all2
              (flattens (example_env (Some (lit ''secret''))
                 (Inr [(lit ''best_flights'',
                        JList [group_with_leg, group_with_leg, group_with_leg])])))
              [group_with_leg, group_with_leg] records
         \<and> length records = 2)"
proof -
  let ?groups = "[group_with_leg, group_with_leg, group_with_leg]"
  let ?env = "example_env (Some (lit ''secret'')) (Inr [(lit ''best_flights'', JList ?groups)])"
  let ?p = "[(lit ''engine'', JStr (lit ''google_flights'')), (lit ''departure_id'', JStr (lit ''JFK'')),
             (lit ''arrival_id'', JStr (lit ''LAX'')), (lit ''outbound_date'', JStr (lit ''2025-06-01'')),
             (lit ''adults'', JInt 1), (lit ''travel_class'', JInt 1), (lit ''hl'', JStr (lit ''en'')),
             (lit ''type'', JStr (lit ''2'')), (lit ''api_key'', JStr (lit ''secret''))]"
  have legs: "\<not> no_legs group_with_leg"
    by (simp add: no_legs_def group_with_leg_def py_get_default_def)
  have sent: "fst (google_flights ?env (lit ''jfk'') (lit ''lax'') (lit ''2025-06-01'') None None
                     (Some (lit ''economy'')) None 2 (Some 1)) = [?p]"
    by (simp add: flights_eval_defs)
  have reply: "get_dict ?env ?p = Inr [(lit ''best_flights'', JList ?groups)]"
    by (simp add: example_env_def)
  have parsed: "\<forall>g\<in>set (take (nat 2) ?groups). no_legs g \<or> (\<exists>r. flattens ?env g r)"
    by (simp add: flights_eval_defs parser_eval_defs)
  from google_flights_records_in_order [OF sent reply _ _ _ _ parsed]
  obtain records where
    "snd (google_flights ?env (lit ''jfk'') (lit ''lax'') (lit ''2025-06-01'') None None
            (Some (lit ''economy'')) None 2 (Some 1))
       = Inr (JObj [(lit ''best_flights'', JList records)])"
    "list_all2 (flattens ?env) (filter (\<lambda>g. \<not> no_legs g) (take (nat 2) ?groups)) records"
    "(\<forall>g\<in>set ?groups. \<not> no_legs g) \<longrightarrow> length records = min (length ?groups) (nat 2)"
    by auto
  then show ?thesis using legs by (auto simp: example_search_def)
qed

text \<open>A group without legs does count toward the cap: with a group without legs
  followed by a group of one leg and a maximum of one, the handler cuts the list to the
  group without legs and returns no record, although the parser alone, given both groups,
  returns the record of the second.\<close>

theorem zero_leg_group_counts_counterexample:
  "no_legs group_without_legs \<and> \<not> no_legs group_with_leg
   \<and> snd (example_search
            (example_env (Some (lit ''secret''))
               (Inr [(lit ''best_flights'', JList [group_without_legs, group_with_leg])]))
            (Some (lit ''economy'')) 1)
       = Inr (JObj [(lit ''best_flights'', JList [])])
   \<and> (\<exists>r. parse_flights (example_env (Some (lit ''secret'')) (Inr []))
             [group_without_legs, group_with_leg] = Inr [r])"
  by (simp add: flights_eval_defs parser_eval_defs)

section \<open>Properties of the handlers\<close>

lemma google_flights_try_no_flights:
  assumes "get_dict env p = Inr results" and "map_of results (lit ''error'') = None"
    and "map_of results (lit ''best_flights'') = None"
  shows "google_flights_try env p n = Inr (JObj [(lit ''message'', JStr (lit ''No flights found.''))])"
  using assms
  by (simp add: google_flights_try_def search_google_def py_get_default_def Let_def)

text \<open>
  Claim C5. The call \<^verbatim>\<open>google_flights("jfk", "lax", "2025-06-01")\<close> takes the defaults
  (no return date, no airline, travel class \<open>economy\<close>, no maximum price, five results, one
  passenger). The travel class resolves to tier 1, and the parameter map built has the
  airport codes in uppercase, \<open>adults\<close> 1, \<open>travel_class\<close> 1 and \<open>type\<close> \<open>2\<close>; with a
  credential, that map and the credential are the one request sent. And for every call
  of the handler that sends its request: when the gateway returns a body with no error
  in band and no \<open>best_flights\<close> entry, the handler returns exactly the mapping with
  \<open>message\<close> \<open>No flights found.\<close>.
\<close>

theorem google_flights_one_way_defaults:
  "map_of TRAVEL_CLASS_MAP (travel_class_key (tables env) (Some (lit ''economy''))) = Some 1
   \<and> flights_params (tables env) (lit ''jfk'') (lit ''lax'') (lit ''2025-06-01'') None None 1 None 1
       = [(lit ''engine'', JStr (lit ''google_flights'')), (lit ''departure_id'', JStr (lit ''JFK'')),
          (lit ''arrival_id'', JStr (lit ''LAX'')), (lit ''outbound_date'', JStr (lit ''2025-06-01'')),
          (lit ''adults'', JInt 1), (lit ''travel_class'', JInt 1), (lit ''hl'', JStr (lit ''en'')),
          (lit ''type'', JStr (lit ''2''))]
   \<and> (SERP_API_KEY env = Some k \<and> k \<noteq> []
        \<longrightarrow> fst (google_flights env (lit ''jfk'') (lit ''lax'') (lit ''2025-06-01'') None None (Some (lit ''economy''))
                   None 5 (Some 1))
            = [[(lit ''engine'', JStr (lit ''google_flights'')), (lit ''departure_id'', JStr (lit ''JFK'')),
                (lit ''arrival_id'', JStr (lit ''LAX'')), (lit ''outbound_date'', JStr (lit ''2025-06-01'')),
                (lit ''adults'', JInt 1), (lit ''travel_class'', JInt 1), (lit ''hl'', JStr (lit ''en'')),
                (lit ''type'', JStr (lit ''2'')), (lit ''api_key'', JStr k)]])
   \<and> (fst (google_flights env dep arr day back airline cls price n pax) = [p]
        \<and> get_dict env p = Inr results
        \<and> map_of results (lit ''error'') = None
        \<and> map_of results (lit ''best_flights'') = None
        \<longrightarrow> snd (google_flights env dep arr day back airline cls price n pax)
            = Inr (JObj [(lit ''message'', JStr (lit ''No flights found.''))]))"
proof (intro conjI impI)
  show tier: "map_of TRAVEL_CLASS_MAP (travel_class_key (tables env) (Some (lit ''economy''))) = Some 1"
    by (simp add: travel_class_key_def TRAVEL_CLASS_MAP_def py_strip_def py_replace_def
          py_lower_def lower_char_def char_class_defs)
  show params: "flights_params (tables env) (lit ''jfk'') (lit ''lax'') (lit ''2025-06-01'') None None 1 None 1
       = [(lit ''engine'', JStr (lit ''google_flights'')), (lit ''departure_id'', JStr (lit ''JFK'')),
          (lit ''arrival_id'', JStr (lit ''LAX'')), (lit ''outbound_date'', JStr (lit ''2025-06-01'')),
          (lit ''adults'', JInt 1), (lit ''travel_class'', JInt 1), (lit ''hl'', JStr (lit ''en'')),
          (lit ''type'', JStr (lit ''2''))]"
    by (simp add: flights_params_def truthy_of_def set_if_int_def set_if_str_def py_upper_def
          upper_char_def char_class_defs)
  show "fst (google_flights env (lit ''jfk'') (lit ''lax'') (lit ''2025-06-01'') None None (Some (lit ''economy''))
                   None 5 (Some 1))
            = [[(lit ''engine'', JStr (lit ''google_flights'')), (lit ''departure_id'', JStr (lit ''JFK'')),
                (lit ''arrival_id'', JStr (lit ''LAX'')), (lit ''outbound_date'', JStr (lit ''2025-06-01'')),
                (lit ''adults'', JInt 1), (lit ''travel_class'', JInt 1), (lit ''hl'', JStr (lit ''en'')),
                (lit ''type'', JStr (lit ''2'')), (lit ''api_key'', JStr k)]]"
    if "SERP_API_KEY env = Some k \<and> k \<noteq> []"
    using that by (simp add: google_flights_def tier params truthy_of_Some Let_def)
  show "snd (google_flights env dep arr day back airline cls price n pax)
            = Inr (JObj [(lit ''message'', JStr (lit ''No flights found.''))])"
    if "fst (google_flights env dep arr day back airline cls price n pax) = [p]
        \<and> get_dict env p = Inr results
        \<and> map_of results (lit ''error'') = None
        \<and> map_of results (lit ''best_flights'') = None"
    using that google_flights_sent [of env dep arr day "back" airline cls price n pax p]
    by (simp add: google_flights_try_no_flights)
qed

theorem google_flights_one_way_defaults_witness:
  "SERP_API_KEY (example_env (Some (lit ''secret'')) (Inr [(lit ''search_metadata'', JObj [])]))
     = Some (lit ''secret'')
   \<and> example_search (example_env (Some (lit ''secret'')) (Inr [(lit ''search_metadata'', JObj [])]))
        (Some (lit ''economy'')) 5
     = ([[(lit ''engine'', JStr (lit ''google_flights'')), (lit ''departure_id'', JStr (lit ''JFK'')),
          (lit ''arrival_id'', JStr (lit ''LAX'')), (lit ''outbound_date'', JStr (lit ''2025-06-01'')),
          (lit ''adults'', JInt 1), (lit ''travel_class'', JInt 1), (lit ''hl'', JStr (lit ''en'')),
          (lit ''type'', JStr (lit ''2'')), (lit ''api_key'', JStr (lit ''secret''))]],
        Inr (JObj [(lit ''message'', JStr (lit ''No flights found.''))]))"
proof -
  let ?env = "example_env (Some (lit ''secret'')) (Inr [(lit ''search_metadata'', JObj [])])"
  let ?p = "[(lit ''engine'', JStr (lit ''google_flights'')), (lit ''departure_id'', JStr (lit ''JFK'')),
             (lit ''arrival_id'', JStr (lit ''LAX'')), (lit ''outbound_date'', JStr (lit ''2025-06-01'')),
             (lit ''adults'', JInt 1), (lit ''travel_class'', JInt 1), (lit ''hl'', JStr (lit ''en'')),
             (lit ''type'', JStr (lit ''2'')), (lit ''api_key'', JStr (lit ''secret''))]"
  have key: "SERP_API_KEY ?env = Some (lit ''secret'') \<and> (lit ''secret'') \<noteq> []"
    by (simp add: example_env_def)
  have reply: "get_dict ?env ?p = Inr [(lit ''search_metadata'', JObj [])]"
    by (simp add: example_env_def)
  note inst = google_flights_one_way_defaults
               [of ?env "(lit ''secret'')" "(lit ''jfk'')" "(lit ''lax'')" "(lit ''2025-06-01'')" None None
                   "Some (lit ''economy'')" None 5 "Some 1" ?p "[(lit ''search_metadata'', JObj [])]"]
  from inst key have sent:
    "fst (google_flights ?env (lit ''jfk'') (lit ''lax'') (lit ''2025-06-01'') None None (Some (lit ''economy''))
            None 5 (Some 1)) = [?p]"
    by blast
  with inst reply have
    "snd (google_flights ?env (lit ''jfk'') (lit ''lax'') (lit ''2025-06-01'') None None (Some (lit ''economy''))
            None 5 (Some 1)) = Inr (JObj [(lit ''message'', JStr (lit ''No flights found.''))])"
    by simp
  with sent key show ?thesis
    by (simp add: example_search_def prod_eq_iff)
qed

text \<open>
  Claim C6. For every count below 1 or above 100, whatever the other arguments and the
  environment, \<open>get_stock_news\<close> sends nothing to the gateway and returns the error
  envelope, tagged \<open>news\<close>, whose message names the bounds 1 and 100.
\<close>

theorem get_stock_news_count_range:
  "num < 1 \<or> num > 100 \<Longrightarrow>
   get_stock_news env q category num start gl hl
     = ([], Inr (create_error_response env q
                   (lit ''Number of news items must be between 1 and 100'') (lit ''news'')))"
  by (simp add: get_stock_news_def)

theorem get_stock_news_count_range_witness:
  "((150::int) < 1 \<or> (150::int) > 100)
   \<and> get_stock_news (example_env (Some (lit ''secret'')) (Inr [])) (lit ''AAPL'') None 150 None None None
     = ([], Inr (JObj [(lit ''tool'', JStr (lit ''news'')), (lit ''query'', JStr (lit ''AAPL'')),
                       (lit ''timestamp'', JStr (lit ''2025-06-01T12:00:00'')),
                       (lit ''error'', JStr (lit ''Number of news items must be between 1 and 100'')),
                       (lit ''success'', JBool False)]))"
  using get_stock_news_count_range
          [of 150 "example_env (Some (lit ''secret'')) (Inr [])" "(lit ''AAPL'')" None None None None]
  by (simp add: create_error_response_def example_env_def)

lemma tier_range: "map_of TRAVEL_CLASS_MAP key = Some t \<Longrightarrow> t \<in> {1, 2, 3, 4}"
  by (auto simp: TRAVEL_CLASS_MAP_def split: if_splits)

lemma table_keys_folded:
  "list_all (\<lambda>k. fold_alias (tables env) k = k \<and> py_strip (tables env) k = k \<and> k \<noteq> []) (map fst TRAVEL_CLASS_MAP)"
  by (simp add: TRAVEL_CLASS_MAP_def fold_alias_def py_replace_def py_lower_def lower_char_def
        py_strip_def char_class_defs)

lemma travel_class_key_fold:
  "s \<noteq> [] \<Longrightarrow> travel_class_key (tables env) (Some s) = py_strip (tables env) (fold_alias (tables env) s)"
  by (simp add: travel_class_key_def fold_alias_def)

lemma alias_match_accepted:
  assumes "alias_match (tables env) s"
  shows "map_of TRAVEL_CLASS_MAP (travel_class_key (tables env) (Some s)) \<noteq> None"
proof -
  from assms obtain k where k: "k \<in> set (map fst TRAVEL_CLASS_MAP)" "fold_alias (tables env) s = fold_alias (tables env) k"
    by (auto simp: alias_match_def list_ex_iff)
  from k(1) table_keys_folded have kk: "fold_alias (tables env) k = k" "py_strip (tables env) k = k" "k \<noteq> []"
    by (auto simp: list_all_iff)
  have "s \<noteq> []" using k(2) kk by (auto simp: fold_alias_def py_replace_def py_lower_def)
  then have "travel_class_key (tables env) (Some s) = k"
    using k(2) kk by (simp add: travel_class_key_fold)
  then show ?thesis using k(1) by (simp add: map_of_eq_None_iff)
qed

lemma flights_params_travel_class:
  "map_of (flights_params (tables env) dep arr day ret airline t price pax) (lit ''travel_class'') = Some (JInt t)"
  by (simp add: flights_params_def Let_def map_of_set_if_str map_of_set_if_int update_conv'
           split: option.splits)

lemma google_flights_resolved:
  assumes "map_of TRAVEL_CLASS_MAP (travel_class_key (tables env) cls) = Some t"
    and "SERP_API_KEY env = Some k" and "k \<noteq> []"
  shows "\<exists>p. fst (google_flights env dep arr day ret airline cls price n pax) = [p]
            \<and> map_of p (lit ''travel_class'') = Some (JInt t)"
  using assms
  by (simp add: google_flights_def Let_def truthy_of_Some update_conv'
        flights_params_travel_class)

lemmas alias_eval_defs =
  alias_match_def fold_alias_def invalid_travel_class_def str_of_keys_def str_of_opt_def

text \<open>
  Claim C7, as the code has it. The handler looks up the key it makes of the travel class:
  \<open>economy\<close> when the argument is absent or empty, and otherwise the argument in lowercase,
  with hyphens turned into underscores and the white space at both ends removed. When the
  key is not in the table, the handler returns the validation error that lists every
  alias of the table, whatever the credential, and sends nothing. When the key is in the
  table, its tier is one of 1, 2, 3 and 4, and with a credential the one request sent
  carries it as \<open>travel_class\<close>. Every argument that matches an alias once case is ignored
  and hyphens are read as underscores has its key in the table.
\<close>

theorem travel_class_resolution:
  "(map_of TRAVEL_CLASS_MAP (travel_class_key (tables env) cls) = None
      \<longrightarrow> google_flights env dep arr day ret airline cls price n pax
            = ([], Inr (invalid_travel_class cls)))
   \<and> (map_of TRAVEL_CLASS_MAP (travel_class_key (tables env) cls) = Some t
      \<longrightarrow> t \<in> {1, 2, 3, 4}
          \<and> (SERP_API_KEY env = Some k \<and> k \<noteq> []
               \<longrightarrow> (\<exists>p. fst (google_flights env dep arr day ret airline cls price n pax) = [p]
                        \<and> map_of p (lit ''travel_class'') = Some (JInt t))))
   \<and> (alias_match (tables env) s \<longrightarrow> map_of TRAVEL_CLASS_MAP (travel_class_key (tables env) (Some s)) \<noteq> None)
   \<and> travel_class_key (tables env) cls
       = (case cls of
            Some c \<Rightarrow> (if c \<noteq> [] then py_strip (tables env) (fold_alias (tables env) c) else (lit ''economy''))
          | None \<Rightarrow> (lit ''economy''))"
proof (intro conjI impI)
  show "google_flights env dep arr day ret airline cls price n pax
            = ([], Inr (invalid_travel_class cls))"
    if "map_of TRAVEL_CLASS_MAP (travel_class_key (tables env) cls) = None"
    using that by (simp add: google_flights_def)
  show "t \<in> {1, 2, 3, 4}" if "map_of TRAVEL_CLASS_MAP (travel_class_key (tables env) cls) = Some t"
    using that by (rule tier_range)
  show "\<exists>p. fst (google_flights env dep arr day ret airline cls price n pax) = [p]
            \<and> map_of p (lit ''travel_class'') = Some (JInt t)"
    if "map_of TRAVEL_CLASS_MAP (travel_class_key (tables env) cls) = Some t"
      and "SERP_API_KEY env = Some k \<and> k \<noteq> []"
    using that by (simp add: google_flights_resolved)
  show "map_of TRAVEL_CLASS_MAP (travel_class_key (tables env) (Some s)) \<noteq> None" if "alias_match (tables env) s"
    using that by (rule alias_match_accepted)
  show "travel_class_key (tables env) cls
       = (case cls of
            Some c \<Rightarrow> (if c \<noteq> [] then py_strip (tables env) (fold_alias (tables env) c) else (lit ''economy''))
          | None \<Rightarrow> (lit ''economy''))"
    by (simp add: travel_class_key_def fold_alias_def split: option.splits)
qed

theorem travel_class_resolution_witness:
  "alias_match example_tables (lit ''Premium-Economy'')
   \<and> map_of TRAVEL_CLASS_MAP (travel_class_key example_tables (Some (lit ''Premium-Economy''))) = Some 2
   \<and> fst (example_search (example_env (Some (lit ''secret'')) (Inr [])) (Some (lit ''Premium-Economy'')) 5)
       = [[(lit ''engine'', JStr (lit ''google_flights'')), (lit ''departure_id'', JStr (lit ''JFK'')),
           (lit ''arrival_id'', JStr (lit ''LAX'')), (lit ''outbound_date'', JStr (lit ''2025-06-01'')),
           (lit ''adults'', JInt 1), (lit ''travel_class'', JInt 2), (lit ''hl'', JStr (lit ''en'')),
           (lit ''type'', JStr (lit ''2'')), (lit ''api_key'', JStr (lit ''secret''))]]
   \<and> map_of TRAVEL_CLASS_MAP
         (travel_class_key example_tables (Some (Chr (CHR 0xA0) # lit ''eco''))) = Some 1
   \<and> map_of TRAVEL_CLASS_MAP (travel_class_key example_tables (Some (lit ''supersonic''))) = None
   \<and> example_search (example_env None (Inr [])) (Some (lit ''supersonic'')) 5
       = ([], Inr (JObj [(lit ''error'',
            JStr ((lit ''Invalid travel_class '') @ lit [CHR 0x27] @ (lit ''supersonic'') @ lit [CHR 0x27]
              @ (lit ''. Must be one of ['')
              @ lit [CHR 0x27] @ (lit ''economy'') @ lit [CHR 0x27] @ (lit '', '')
              @ lit [CHR 0x27] @ (lit ''eco'') @ lit [CHR 0x27] @ (lit '', '')
              @ lit [CHR 0x27] @ (lit ''coach'') @ lit [CHR 0x27] @ (lit '', '')
              @ lit [CHR 0x27] @ (lit ''premium'') @ lit [CHR 0x27] @ (lit '', '')
              @ lit [CHR 0x27] @ (lit ''premium economy'') @ lit [CHR 0x27] @ (lit '', '')
              @ lit [CHR 0x27] @ (lit ''premium_economy'') @ lit [CHR 0x27] @ (lit '', '')
              @ lit [CHR 0x27] @ (lit ''business'') @ lit [CHR 0x27] @ (lit '', '')
              @ lit [CHR 0x27] @ (lit ''business class'') @ lit [CHR 0x27] @ (lit '', '')
              @ lit [CHR 0x27] @ (lit ''business_class'') @ lit [CHR 0x27] @ (lit '', '')
              @ lit [CHR 0x27] @ (lit ''first'') @ lit [CHR 0x27] @ (lit '', '')
              @ lit [CHR 0x27] @ (lit ''first class'') @ lit [CHR 0x27] @ (lit '', '')
              @ lit [CHR 0x27] @ (lit ''first_class'') @ lit [CHR 0x27] @ (lit '', '')
              @ lit [CHR 0x27] @ (lit ''luxury'') @ lit [CHR 0x27] @ (lit '']'')))]))"
proof -
  have a: "alias_match example_tables (lit ''Premium-Economy'')"
    by (simp add: alias_eval_defs flights_eval_defs)
  have b: "map_of TRAVEL_CLASS_MAP (travel_class_key example_tables (Some (lit ''Premium-Economy''))) = Some 2"
    by (simp add: flights_eval_defs)
  have c: "map_of TRAVEL_CLASS_MAP (travel_class_key example_tables (Some (lit ''supersonic''))) = None"
    by (simp add: flights_eval_defs)
  have d: "SERP_API_KEY (example_env (Some (lit ''secret'')) (Inr [])) = Some (lit ''secret'')
           \<and> (lit ''secret'') \<noteq> []"
    by (simp add: example_env_def)
  from travel_class_resolution
         [where cls = "Some (lit ''supersonic'')" and env = "example_env None (Inr [])"
            and dep = "lit ''jfk''" and arr = "lit ''lax''" and day = "lit ''2025-06-01''"
            and ret = None and airline = None and price = None and n = 5 and pax = "Some 1"] c
  have e: "example_search (example_env None (Inr [])) (Some (lit ''supersonic'')) 5
             = ([], Inr (invalid_travel_class (Some (lit ''supersonic''))))"
    by (simp add: example_search_def example_env_def)
  have f: "fst (example_search (example_env (Some (lit ''secret'')) (Inr []))
                  (Some (lit ''Premium-Economy'')) 5)
       = [[(lit ''engine'', JStr (lit ''google_flights'')), (lit ''departure_id'', JStr (lit ''JFK'')),
           (lit ''arrival_id'', JStr (lit ''LAX'')), (lit ''outbound_date'', JStr (lit ''2025-06-01'')),
           (lit ''adults'', JInt 1), (lit ''travel_class'', JInt 2), (lit ''hl'', JStr (lit ''en'')),
           (lit ''type'', JStr (lit ''2'')), (lit ''api_key'', JStr (lit ''secret''))]]"
    by (simp add: flights_eval_defs)
  have g: "map_of TRAVEL_CLASS_MAP
             (travel_class_key example_tables (Some (Chr (CHR 0xA0) # lit ''eco''))) = Some 1"
    by (simp add: flights_eval_defs)
  show ?thesis using a b c e f g
    by (simp add: alias_eval_defs TRAVEL_CLASS_MAP_def lit_def)
qed

lemma padded_alias_resolved:
  "\<not> alias_match u (lit '' eco'') \<and> travel_class_key u (Some (lit '' eco'')) = lit ''eco''
   \<and> \<not> alias_match u [] \<and> travel_class_key u (Some []) = lit ''economy''"
  by (simp add: alias_match_def fold_alias_def travel_class_key_def TRAVEL_CLASS_MAP_def
        py_lower_def lower_char_def py_replace_def py_strip_def char_class_defs)

text \<open>Not every argument that matches no alias is rejected: \<open>eco\<close> after a space matches
  no alias when only case, hyphens and underscores are ignored, and the empty string
  matches none either, yet both are resolved to tier 1 and the request is sent. Both
  arguments are ASCII, so this is so whatever the character database.\<close>

theorem travel_class_padding_counterexample:
  "\<not> alias_match example_tables (lit '' eco'')
   \<and> example_search (example_env (Some (lit ''secret'')) (Inr [])) (Some (lit '' eco'')) 5
       = ([[(lit ''engine'', JStr (lit ''google_flights'')), (lit ''departure_id'', JStr (lit ''JFK'')),
            (lit ''arrival_id'', JStr (lit ''LAX'')), (lit ''outbound_date'', JStr (lit ''2025-06-01'')),
            (lit ''adults'', JInt 1), (lit ''travel_class'', JInt 1), (lit ''hl'', JStr (lit ''en'')),
            (lit ''type'', JStr (lit ''2'')), (lit ''api_key'', JStr (lit ''secret''))]],
          Inr (JObj [(lit ''message'', JStr (lit ''No flights found.''))]))
   \<and> \<not> alias_match example_tables []
   \<and> fst (example_search (example_env (Some (lit ''secret'')) (Inr [])) (Some []) 5)
       = [[(lit ''engine'', JStr (lit ''google_flights'')), (lit ''departure_id'', JStr (lit ''JFK'')),
           (lit ''arrival_id'', JStr (lit ''LAX'')), (lit ''outbound_date'', JStr (lit ''2025-06-01'')),
           (lit ''adults'', JInt 1), (lit ''travel_class'', JInt 1), (lit ''hl'', JStr (lit ''en'')),
           (lit ''type'', JStr (lit ''2'')), (lit ''api_key'', JStr (lit ''secret''))]]"
  by (simp add: alias_eval_defs flights_eval_defs)

text \<open>
  Claim C8, as the code has it. When the module's credential is absent or empty, a handler
  whose arguments pass its own validation sends nothing and returns an error: the quote,
  market data, graph data, comparison, news and debug handlers return the error envelope
  with the message \<open>SERP_API_KEY not configured\<close>, under their own tool tag and query,
  and the flight search returns the bare mapping whose \<open>error\<close> is
  \<open>SERP_API_KEY environment variable is required\<close>.
\<close>

theorem missing_credential_errors:
  assumes "truthy_of (SERP_API_KEY env) = None"
  shows
  "(py_strip (tables env) q \<noteq> []
      \<longrightarrow> get_stock_quote env q gl hl
          = ([], Inr (create_error_response env q (lit ''SERP_API_KEY not configured'')
                        (lit ''stock_quote''))))
   \<and> (trend \<in> set valid_trends
      \<longrightarrow> get_market_data env trend gl hl
          = ([], Inr (create_error_response env trend (lit ''SERP_API_KEY not configured'')
                        (lit ''market_data''))))
   \<and> (period \<in> set valid_periods
      \<longrightarrow> get_graph_data env q period gl hl
            = ([], Inr (create_error_response env q (lit ''SERP_API_KEY not configured'')
                          (lit ''graph_data'')))
          \<and> compare_stocks env q period gl hl
            = ([], Inr (create_error_response env q (lit ''SERP_API_KEY not configured'')
                          (lit ''comparison''))))
   \<and> (1 \<le> num \<and> num \<le> 100
       \<and> (truthy_of category = None \<or> (\<exists>c \<in> set valid_categories. truthy_of category = Some c))
      \<longrightarrow> get_stock_news env q category num start gl hl
          = ([], Inr (create_error_response env q (lit ''SERP_API_KEY not configured'') (lit ''news''))))
   \<and> debug_api_response env q engine gl hl
       = ([], Inr (create_error_response env q (lit ''SERP_API_KEY not configured'') (lit ''debug'')))
   \<and> (map_of TRAVEL_CLASS_MAP (travel_class_key (tables env) cls) \<noteq> None
      \<longrightarrow> google_flights env dep arr day ret airline cls price n pax
          = ([], Inr (JObj [(lit ''error'',
                             JStr (lit ''SERP_API_KEY environment variable is required''))])))"
proof (intro conjI impI)
  show "get_stock_quote env q gl hl
          = ([], Inr (create_error_response env q (lit ''SERP_API_KEY not configured'')
                        (lit ''stock_quote'')))" if "py_strip (tables env) q \<noteq> []"
    using that assms by (simp add: get_stock_quote_def)
  show "get_market_data env trend gl hl
          = ([], Inr (create_error_response env trend (lit ''SERP_API_KEY not configured'')
                        (lit ''market_data'')))" if "trend \<in> set valid_trends"
    using that assms by (simp add: get_market_data_def)
  show "get_graph_data env q period gl hl
            = ([], Inr (create_error_response env q (lit ''SERP_API_KEY not configured'')
                          (lit ''graph_data'')))" if "period \<in> set valid_periods"
    using that assms by (simp add: get_graph_data_def)
  show "compare_stocks env q period gl hl
            = ([], Inr (create_error_response env q (lit ''SERP_API_KEY not configured'')
                          (lit ''comparison'')))" if "period \<in> set valid_periods"
    using that assms by (simp add: compare_stocks_def)
  show "get_stock_news env q category num start gl hl
          = ([], Inr (create_error_response env q (lit ''SERP_API_KEY not configured'') (lit ''news'')))"
    if "1 \<le> num \<and> num \<le> 100
       \<and> (truthy_of category = None \<or> (\<exists>c \<in> set valid_categories. truthy_of category = Some c))"
    using that assms by (auto simp: get_stock_news_def)
  show "debug_api_response env q engine gl hl
       = ([], Inr (create_error_response env q (lit ''SERP_API_KEY not configured'') (lit ''debug'')))"
    using assms by (simp add: debug_api_response_def)
  show "google_flights env dep arr day ret airline cls price n pax
          = ([], Inr (JObj [(lit ''error'',
                             JStr (lit ''SERP_API_KEY environment variable is required''))]))"
    if "map_of TRAVEL_CLASS_MAP (travel_class_key (tables env) cls) \<noteq> None"
    using that assms by (auto simp: google_flights_def Let_def)
qed

theorem missing_credential_errors_witness:
  "truthy_of (SERP_API_KEY (example_env None (Inr []))) = None
   \<and> get_stock_quote (example_env None (Inr [])) (lit ''AAPL'') None None
     = ([], Inr (JObj [(lit ''tool'', JStr (lit ''stock_quote'')), (lit ''query'', JStr (lit ''AAPL'')),
                       (lit ''timestamp'', JStr (lit ''2025-06-01T12:00:00'')),
                       (lit ''error'', JStr (lit ''SERP_API_KEY not configured'')),
                       (lit ''success'', JBool False)]))
   \<and> get_stock_news (example_env None (Inr [])) (lit ''AAPL'') (Some (lit ''latest'')) 10 None None None
     = ([], Inr (JObj [(lit ''tool'', JStr (lit ''news'')), (lit ''query'', JStr (lit ''AAPL'')),
                       (lit ''timestamp'', JStr (lit ''2025-06-01T12:00:00'')),
                       (lit ''error'', JStr (lit ''SERP_API_KEY not configured'')),
                       (lit ''success'', JBool False)]))
   \<and> example_search (example_env None (Inr [])) (Some (lit ''economy'')) 5
     = ([], Inr (JObj [(lit ''error'',
                        JStr (lit ''SERP_API_KEY environment variable is required''))]))"
proof -
  let ?env = "example_env None (Inr [])"
  have absent: "truthy_of (SERP_API_KEY ?env) = None"
    by (simp add: example_env_def truthy_of_def)
  have q: "py_strip (tables ?env) (lit ''AAPL'') \<noteq> []"
    by (simp add: py_strip_def char_class_defs example_env_def)
  have news: "(1::int) \<le> 10 \<and> (10::int) \<le> 100
       \<and> (truthy_of (Some (lit ''latest'')) = None
           \<or> (\<exists>c \<in> set valid_categories. truthy_of (Some (lit ''latest'')) = Some c))"
    by (simp add: truthy_of_def valid_categories_def)
  have cls: "map_of TRAVEL_CLASS_MAP
               (travel_class_key (tables ?env) (Some (lit ''economy''))) \<noteq> None"
    by (simp add: flights_eval_defs)
  note inst = missing_credential_errors
                [OF absent, of "(lit ''AAPL'')" None None "(lit ''indexes'')" "(lit ''1d'')" 10 "Some (lit ''latest'')"
                    None "(lit ''google_finance'')" "Some (lit ''economy'')" "(lit ''jfk'')" "(lit ''lax'')"
                    "(lit ''2025-06-01'')" None None None 5 "Some 1"]
  from inst q news cls absent show ?thesis
    by (simp add: create_error_response_def example_env_def example_search_def)
qed

text \<open>The error is not the same for every handler: without a credential the debug
  handler returns an envelope saying \<open>SERP_API_KEY not configured\<close>, the flight search a
  bare mapping with another message, and the news handler, given a count of 150, the
  validation error of the count.\<close>

theorem missing_credential_shape_counterexample:
  "truthy_of (SERP_API_KEY (example_env None (Inr []))) = None
   \<and> snd (debug_api_response (example_env None (Inr [])) (lit ''AAPL'') (lit ''google_finance'') None None)
     = Inr (JObj [(lit ''tool'', JStr (lit ''debug'')), (lit ''query'', JStr (lit ''AAPL'')),
                  (lit ''timestamp'', JStr (lit ''2025-06-01T12:00:00'')),
                  (lit ''error'', JStr (lit ''SERP_API_KEY not configured'')),
                  (lit ''success'', JBool False)])
   \<and> snd (example_search (example_env None (Inr [])) (Some (lit ''economy'')) 5)
     = Inr (JObj [(lit ''error'', JStr (lit ''SERP_API_KEY environment variable is required''))])
   \<and> snd (get_stock_news (example_env None (Inr [])) (lit ''AAPL'') None 150 None None None)
     = Inr (JObj [(lit ''tool'', JStr (lit ''news'')), (lit ''query'', JStr (lit ''AAPL'')),
                  (lit ''timestamp'', JStr (lit ''2025-06-01T12:00:00'')),
                  (lit ''error'', JStr (lit ''Number of news items must be between 1 and 100'')),
                  (lit ''success'', JBool False)])"
  by (simp add: debug_api_response_def get_stock_news_def create_error_response_def
        flights_eval_defs)

lemma field_error_response:
  "field (create_error_response env q m t) (lit ''error'') = Some (JStr m)"
  by (simp add: field_def create_error_response_def)

lemma field_success_response:
  "field (create_success_response env q d t) (lit ''error'') = None"
  by (simp add: field_def create_success_response_def)

lemma get_market_data_never_empty_query:
  "snd (get_market_data env trend gl hl) = Inr r \<Longrightarrow>
   field r (lit ''error'') \<noteq> Some (JStr (lit ''Query cannot be empty''))"
  by (auto simp: get_market_data_def Let_def field_error_response field_success_response
          lit_Cons_append_eq split: if_splits option.splits)

lemma get_graph_data_never_empty_query:
  "snd (get_graph_data env q period gl hl) = Inr r \<Longrightarrow>
   field r (lit ''error'') \<noteq> Some (JStr (lit ''Query cannot be empty''))"
  by (auto simp: get_graph_data_def Let_def field_error_response field_success_response
          lit_Cons_append_eq split: if_splits option.splits)

lemma compare_stocks_never_empty_query:
  "snd (compare_stocks env q period gl hl) = Inr r \<Longrightarrow>
   field r (lit ''error'') \<noteq> Some (JStr (lit ''Query cannot be empty''))"
  by (auto simp: compare_stocks_def Let_def field_error_response field_success_response
          lit_Cons_append_eq split: if_splits option.splits)

lemma get_financials_never_empty_query:
  "snd (get_financials env q window gl hl) = Inr r \<Longrightarrow>
   field r (lit ''error'') \<noteq> Some (JStr (lit ''Query cannot be empty''))"
  by (auto simp: get_financials_def Let_def field_error_response field_success_response
          lit_Cons_append_eq split: if_splits option.splits)

lemma get_stock_news_never_empty_query:
  "snd (get_stock_news env q category num start gl hl) = Inr r \<Longrightarrow>
   field r (lit ''error'') \<noteq> Some (JStr (lit ''Query cannot be empty''))"
  by (auto simp: get_stock_news_def Let_def field_error_response field_success_response
          lit_Cons_append_eq split: if_splits option.splits)

lemma field_debug_response:
  "field (JObj [(lit ''tool'', JStr (lit ''debug'')), (lit ''query'', JStr q), (lit ''engine'', JStr engine),
                (lit ''timestamp'', JStr t), (lit ''success'', JBool True),
                (lit ''api_response'', JObj data)]) (lit ''error'') = None"
  by (simp add: field_def)

lemma debug_api_response_never_empty_query:
  "snd (debug_api_response env q engine gl hl) = Inr r \<Longrightarrow>
   field r (lit ''error'') \<noteq> Some (JStr (lit ''Query cannot be empty''))"
  by (auto simp: debug_api_response_def Let_def field_error_response field_debug_response
          lit_Cons_append_eq split: if_splits option.splits)

lemma google_flights_try_never_empty_query:
  "google_flights_try env p n = Inr r \<Longrightarrow>
   field r (lit ''error'') \<noteq> Some (JStr (lit ''Query cannot be empty''))"
  by (auto simp: google_flights_try_def Let_def then_do_def field_def lit_Cons_append_eq
          split: if_splits option.splits sum.splits)

lemma google_flights_never_empty_query:
  "snd (google_flights env dep arr day ret airline cls price n pax) = Inr r \<Longrightarrow>
   field r (lit ''error'') \<noteq> Some (JStr (lit ''Query cannot be empty''))"
  using google_flights_try_never_empty_query
  by (auto simp: google_flights_def Let_def field_def invalid_travel_class_def
          lit_Cons_append_eq split: if_splits option.splits sum.splits)

lemma graph_data_sends_query:
  assumes "SERP_API_KEY env = Some k" and "k \<noteq> []" and "period \<in> set valid_periods"
  shows "\<exists>p. fst (get_graph_data env q period gl hl) = [p] \<and> map_of p (lit ''q'') = Some (JStr q)"
  using assms by (simp add: get_graph_data_def truthy_of_Some Let_def map_of_set_if_str)

lemma compare_stocks_sends_query:
  assumes "SERP_API_KEY env = Some k" and "k \<noteq> []" and "period \<in> set valid_periods"
  shows "\<exists>p. fst (compare_stocks env q period gl hl) = [p] \<and> map_of p (lit ''q'') = Some (JStr q)"
  using assms by (simp add: compare_stocks_def truthy_of_Some Let_def map_of_set_if_str)

lemma stock_news_sends_query:
  assumes "SERP_API_KEY env = Some k" and "k \<noteq> []"
  shows "\<exists>p. fst (get_stock_news env q None 10 None gl hl) = [p]
            \<and> map_of p (lit ''q'') = Some (JStr q)"
  using assms
  by (simp add: get_stock_news_def truthy_of_Some Let_def map_of_set_if_str map_of_set_if_int
        truthy_of_def)

lemma debug_sends_query:
  assumes "SERP_API_KEY env = Some k" and "k \<noteq> []"
  shows "\<exists>p. fst (debug_api_response env q (lit ''google_finance'') gl hl) = [p]
            \<and> map_of p (lit ''q'') = Some (JStr q)"
  using assms
  by (simp add: debug_api_response_def truthy_of_Some Let_def map_of_set_if_str)

lemma py_strip_Nil_iff: "py_strip u s = [] \<longleftrightarrow> list_all (is_space_char u) s"
proof
  assume "py_strip u s = []"
  then have a: "\<forall>x\<in>set (dropWhile (is_space_char u) s). is_space_char u x"
    by (simp add: py_strip_def dropWhile_eq_Nil_conv)
  have "dropWhile (is_space_char u) s = []"
  proof (rule ccontr)
    assume n: "dropWhile (is_space_char u) s \<noteq> []"
    then have "\<not> is_space_char u (hd (dropWhile (is_space_char u) s))"
      by (rule hd_dropWhile)
    moreover have "hd (dropWhile (is_space_char u) s) \<in> set (dropWhile (is_space_char u) s)"
      using n by simp
    ultimately show False using a by blast
  qed
  then show "list_all (is_space_char u) s"
    by (simp add: dropWhile_eq_Nil_conv list_all_iff)
next
  assume "list_all (is_space_char u) s"
  then show "py_strip u s = []"
    by (auto simp: py_strip_def list_all_iff dest: set_dropWhileD)
qed

lemma financials_sends_query:
  assumes "getenv env (lit ''SERP_API_K EY'') = Some k" and "k \<noteq> []"
  shows "\<exists>p. fst (get_financials env q None gl hl) = [p]
            \<and> map_of p (lit ''q'') = Some (JStr q)"
  using assms
  by (simp add: get_financials_def Let_def map_of_set_if_str truthy_of_def)

text \<open>
  Claim C10. For every query that is empty or white space only (every character of it is
  white space for \<^verbatim>\<open>str.strip\<close>, beyond ASCII too), whatever the credential,
  \<open>get_stock_quote\<close> sends nothing and returns the error envelope, tagged \<open>stock_quote\<close>,
  with the message \<open>Query cannot be empty\<close>. No value returned by any other handler
  carries that message; and the graph data, comparison, news and debug handlers, given
  a credential, and the financials handler, given a value under the name it reads, send
  the query they are given, blank or not, as the \<open>q\<close> of their request.
\<close>

theorem empty_query_check_only_in_stock_quote:
  "(list_all (is_space_char (tables env)) q
      \<longrightarrow> get_stock_quote env q gl hl
          = ([], Inr (create_error_response env q (lit ''Query cannot be empty'')
                        (lit ''stock_quote''))))
   \<and> (\<forall>r. snd (get_market_data env trend gl hl) = Inr r
            \<or> snd (get_graph_data env q period gl hl) = Inr r
            \<or> snd (compare_stocks env q period gl hl) = Inr r
            \<or> snd (get_financials env q window gl hl) = Inr r
            \<or> snd (get_stock_news env q category num start gl hl) = Inr r
            \<or> snd (debug_api_response env q engine gl hl) = Inr r
            \<or> snd (google_flights env dep arr day ret airline cls price n pax) = Inr r
          \<longrightarrow> field r (lit ''error'') \<noteq> Some (JStr (lit ''Query cannot be empty'')))
   \<and> (SERP_API_KEY env = Some k \<and> k \<noteq> []
      \<longrightarrow> (\<exists>p. fst (get_graph_data env q (lit ''1d'') gl hl) = [p]
               \<and> map_of p (lit ''q'') = Some (JStr q))
          \<and> (\<exists>p. fst (compare_stocks env q (lit ''1d'') gl hl) = [p]
               \<and> map_of p (lit ''q'') = Some (JStr q))
          \<and> (\<exists>p. fst (get_stock_news env q None 10 None gl hl) = [p]
               \<and> map_of p (lit ''q'') = Some (JStr q))
          \<and> (\<exists>p. fst (debug_api_response env q (lit ''google_finance'') gl hl) = [p]
               \<and> map_of p (lit ''q'') = Some (JStr q)))
   \<and> (getenv env (lit ''SERP_API_K EY'') = Some k' \<and> k' \<noteq> []
      \<longrightarrow> (\<exists>p. fst (get_financials env q None gl hl) = [p]
               \<and> map_of p (lit ''q'') = Some (JStr q)))"
proof (intro conjI allI impI)
  show "get_stock_quote env q gl hl
          = ([], Inr (create_error_response env q (lit ''Query cannot be empty'')
                        (lit ''stock_quote'')))"
    if "list_all (is_space_char (tables env)) q"
    using that by (simp add: get_stock_quote_def py_strip_Nil_iff)
next
  fix r
  assume "snd (get_market_data env trend gl hl) = Inr r
            \<or> snd (get_graph_data env q period gl hl) = Inr r
            \<or> snd (compare_stocks env q period gl hl) = Inr r
            \<or> snd (get_financials env q window gl hl) = Inr r
            \<or> snd (get_stock_news env q category num start gl hl) = Inr r
            \<or> snd (debug_api_response env q engine gl hl) = Inr r
            \<or> snd (google_flights env dep arr day ret airline cls price n pax) = Inr r"
  then show "field r (lit ''error'') \<noteq> Some (JStr (lit ''Query cannot be empty''))"
    by (elim disjE)
       (erule get_market_data_never_empty_query get_graph_data_never_empty_query
          compare_stocks_never_empty_query get_financials_never_empty_query
          get_stock_news_never_empty_query debug_api_response_never_empty_query
          google_flights_never_empty_query)+
next
  assume key: "SERP_API_KEY env = Some k \<and> k \<noteq> []"
  have d: "lit ''1d'' \<in> set valid_periods" by (simp add: valid_periods_def)
  show "\<exists>p. fst (get_graph_data env q (lit ''1d'') gl hl) = [p]
            \<and> map_of p (lit ''q'') = Some (JStr q)"
    using key d by (simp add: graph_data_sends_query)
  show "\<exists>p. fst (compare_stocks env q (lit ''1d'') gl hl) = [p]
            \<and> map_of p (lit ''q'') = Some (JStr q)"
    using key d by (simp add: compare_stocks_sends_query)
  show "\<exists>p. fst (get_stock_news env q None 10 None gl hl) = [p]
            \<and> map_of p (lit ''q'') = Some (JStr q)"
    using key by (simp add: stock_news_sends_query)
  show "\<exists>p. fst (debug_api_response env q (lit ''google_finance'') gl hl) = [p]
            \<and> map_of p (lit ''q'') = Some (JStr q)"
    using key by (simp add: debug_sends_query)
next
  assume "getenv env (lit ''SERP_API_K EY'') = Some k' \<and> k' \<noteq> []"
  then show "\<exists>p. fst (get_financials env q None gl hl) = [p]
              \<and> map_of p (lit ''q'') = Some (JStr q)"
    by (elim conjE) (rule financials_sends_query)
qed

text \<open>A query of a no-break space (U+00A0) and two spaces is white space only: the quote
  handler rejects it without a credential, and the graph data and financials handlers
  send it as it is.\<close>

theorem empty_query_check_only_in_stock_quote_witness:
  "list_all (is_space_char example_tables) (Chr (CHR 0xA0) # lit ''  '')
   \<and> get_stock_quote (example_env None (Inr [])) (Chr (CHR 0xA0) # lit ''  '') None None
     = ([], Inr (JObj [(lit ''tool'', JStr (lit ''stock_quote'')),
                       (lit ''query'', JStr (Chr (CHR 0xA0) # lit ''  '')),
                       (lit ''timestamp'', JStr (lit ''2025-06-01T12:00:00'')),
                       (lit ''error'', JStr (lit ''Query cannot be empty'')),
                       (lit ''success'', JBool False)]))
   \<and> fst (get_graph_data (example_env (Some (lit ''secret'')) (Inr []))
            (Chr (CHR 0xA0) # lit ''  '') (lit ''1d'') None None)
     = [[(lit ''engine'', JStr (lit ''google_finance'')),
         (lit ''q'', JStr (Chr (CHR 0xA0) # lit ''  '')),
         (lit ''period'', JStr (lit ''1d'')), (lit ''api_key'', JStr (lit ''secret''))]]
   \<and> fst (get_financials
            ((example_env None (Inr []))\<lparr>getenv := (\<lambda>name. Some (lit ''secret''))\<rparr>)
            (Chr (CHR 0xA0) # lit ''  '') None None None)
     = [[(lit ''engine'', JStr (lit ''google_finance'')),
         (lit ''q'', JStr (Chr (CHR 0xA0) # lit ''  '')),
         (lit ''api_key'', JStr (lit ''secret''))]]"
proof -
  let ?q = "Chr (CHR 0xA0) # lit ''  ''"
  let ?env = "example_env None (Inr [])"
  have blank: "list_all (is_space_char (tables ?env)) ?q"
    by (simp add: char_class_defs example_env_def example_tables_def example_spaces_def)
  from empty_query_check_only_in_stock_quote [where q = ?q and env = ?env] blank
  have "get_stock_quote ?env ?q None None
          = ([], Inr (create_error_response ?env ?q (lit ''Query cannot be empty'')
                        (lit ''stock_quote'')))"
    by blast
  moreover have
    "fst (get_graph_data (example_env (Some (lit ''secret'')) (Inr [])) ?q (lit ''1d'') None None)
     = [[(lit ''engine'', JStr (lit ''google_finance'')), (lit ''q'', JStr ?q),
         (lit ''period'', JStr (lit ''1d'')), (lit ''api_key'', JStr (lit ''secret''))]]"
    by (simp add: get_graph_data_def valid_periods_def example_env_def truthy_of_def
          set_if_str_def Let_def)
  moreover have
    "fst (get_financials (?env\<lparr>getenv := (\<lambda>name. Some (lit ''secret''))\<rparr>) ?q None None None)
     = [[(lit ''engine'', JStr (lit ''google_finance'')), (lit ''q'', JStr ?q),
         (lit ''api_key'', JStr (lit ''secret''))]]"
    by (simp add: get_financials_def example_env_def truthy_of_def set_if_str_def Let_def)
  ultimately show ?thesis using blank
    by (simp add: create_error_response_def example_env_def)
qed

lemma gateway_failed_error:
  "gateway_failed env p \<Longrightarrow> \<exists>e. map_of (search_google env p) (lit ''error'') = Some e"
  by (auto simp: gateway_failed_def search_google_def split: sum.splits option.splits)

lemma is_error_response: "is_error_result (create_error_response env q m t)"
  by (simp add: is_error_result_def has_field_def field_def create_error_response_def)

lemma get_stock_quote_returns:
  "\<exists>r. snd (get_stock_quote env q gl hl) = Inr r
       \<and> (fst (get_stock_quote env q gl hl) = []
            \<or> (\<exists>p\<in>set (fst (get_stock_quote env q gl hl)). gateway_failed env p)
           \<longrightarrow> is_error_result r)"
  by (auto simp: get_stock_quote_def Let_def is_error_response dest!: gateway_failed_error
          split: option.splits)

lemma get_market_data_returns:
  "\<exists>r. snd (get_market_data env trend gl hl) = Inr r
       \<and> (fst (get_market_data env trend gl hl) = []
            \<or> (\<exists>p\<in>set (fst (get_market_data env trend gl hl)). gateway_failed env p)
           \<longrightarrow> is_error_result r)"
  by (auto simp: get_market_data_def Let_def is_error_response dest!: gateway_failed_error
          split: option.splits)

lemma get_graph_data_returns:
  "\<exists>r. snd (get_graph_data env q period gl hl) = Inr r
       \<and> (fst (get_graph_data env q period gl hl) = []
            \<or> (\<exists>p\<in>set (fst (get_graph_data env q period gl hl)). gateway_failed env p)
           \<longrightarrow> is_error_result r)"
  by (auto simp: get_graph_data_def Let_def is_error_response dest!: gateway_failed_error
          split: option.splits)

lemma compare_stocks_returns:
  "\<exists>r. snd (compare_stocks env q period gl hl) = Inr r
       \<and> (fst (compare_stocks env q period gl hl) = []
            \<or> (\<exists>p\<in>set (fst (compare_stocks env q period gl hl)). gateway_failed env p)
           \<longrightarrow> is_error_result r)"
  by (auto simp: compare_stocks_def Let_def is_error_response dest!: gateway_failed_error
          split: option.splits)

lemma get_financials_returns:
  "\<exists>r. snd (get_financials env q window gl hl) = Inr r
       \<and> (fst (get_financials env q window gl hl) = []
            \<or> (\<exists>p\<in>set (fst (get_financials env q window gl hl)). gateway_failed env p)
           \<longrightarrow> is_error_result r)"
  by (auto simp: get_financials_def Let_def is_error_response dest!: gateway_failed_error
          split: option.splits)

lemma get_stock_news_returns:
  "\<exists>r. snd (get_stock_news env q category num start gl hl) = Inr r
       \<and> (fst (get_stock_news env q category num start gl hl) = []
            \<or> (\<exists>p\<in>set (fst (get_stock_news env q category num start gl hl)).
                  gateway_failed env p)
           \<longrightarrow> is_error_result r)"
  by (auto simp: get_stock_news_def Let_def is_error_response dest!: gateway_failed_error
          split: option.splits)

lemma debug_api_response_returns:
  "\<exists>r. snd (debug_api_response env q engine gl hl) = Inr r
       \<and> (fst (debug_api_response env q engine gl hl) = []
            \<or> (\<exists>p\<in>set (fst (debug_api_response env q engine gl hl)). gateway_failed env p)
           \<longrightarrow> is_error_result r)"
  by (auto simp: debug_api_response_def Let_def is_error_response dest!: gateway_failed_error
          split: option.splits)

lemma google_flights_try_failed:
  "gateway_failed env p \<Longrightarrow> \<exists>r. google_flights_try env p n = Inr r \<and> is_error_result r"
  by (auto simp: google_flights_try_def Let_def is_error_result_def has_field_def field_def
          dest!: gateway_failed_error)

lemma google_flights_returns:
  "\<exists>r. snd (google_flights env dep arr day ret airline cls price n pax) = Inr r
       \<and> (fst (google_flights env dep arr day ret airline cls price n pax) = []
            \<or> (\<exists>p\<in>set (fst (google_flights env dep arr day ret airline cls price n pax)).
                  gateway_failed env p)
           \<longrightarrow> is_error_result r)"
proof (cases "fst (google_flights env dep arr day ret airline cls price n pax) = []")
  case True
  then show ?thesis
    by (auto simp: google_flights_def Let_def invalid_travel_class_def is_error_result_def
          has_field_def field_def split: option.splits)
next
  case False
  then obtain p where p: "fst (google_flights env dep arr day ret airline cls price n pax) = [p]"
    by (auto simp: google_flights_def Let_def split: option.splits)
  note ret = google_flights_sent [OF p]
  show ?thesis
  proof (cases "gateway_failed env p")
    case True
    then show ?thesis using ret p google_flights_try_failed [of env p n] by auto
  next
    case False
    then show ?thesis using ret p by auto
  qed
qed

lemma google_flights_catches:
  assumes "fst (google_flights env dep arr day ret airline cls price n pax) = [p]"
    and "google_flights_try env p n = Inl e"
  shows "snd (google_flights env dep arr day ret airline cls price n pax)
           = Inr (JObj [(lit ''error'', JStr ((lit ''Error searching flights: '') @ str_exn env e))])"
  using google_flights_sent [OF assms(1)] assms(2) by simp


lemma returns_safelyI:
  "\<exists>r. snd out = Inr r
       \<and> (fst out = [] \<or> (\<exists>p\<in>set (fst out). gateway_failed env p) \<longrightarrow> is_error_result r)
   \<Longrightarrow> returns_safely env out"
  by (auto simp: returns_safely_def list_ex_iff)

text \<open>
  Claim C9. For every environment and all arguments, each of the eight handlers returns a
  value at its boundary and raises nothing; the value is an error result whenever the
  handler stopped before the gateway (validation or configuration error) and whenever
  the gateway raised or reported an error in band on the request sent. In the flight
  search, an exception raised inside the \<^verbatim>\<open>try\<close> (by the slice or by the parser) is
  returned as the error \<open>Error searching flights: \<close> followed by its text. Exceptions are
  those \<^verbatim>\<open>except Exception\<close> catches.
\<close>

theorem handlers_never_raise:
  "returns_safely env (get_stock_quote env q gl hl)
   \<and> returns_safely env (get_market_data env trend gl hl)
   \<and> returns_safely env (get_graph_data env q period gl hl)
   \<and> returns_safely env (compare_stocks env q period gl hl)
   \<and> returns_safely env (get_financials env q window gl hl)
   \<and> returns_safely env (get_stock_news env q category num start gl hl)
   \<and> returns_safely env (debug_api_response env q engine gl hl)
   \<and> returns_safely env (google_flights env dep arr day ret airline cls price n pax)
   \<and> (fst (google_flights env dep arr day ret airline cls price n pax) = [p]
       \<and> google_flights_try env p n = Inl e
      \<longrightarrow> snd (google_flights env dep arr day ret airline cls price n pax)
          = Inr (JObj [(lit ''error'', JStr ((lit ''Error searching flights: '') @ str_exn env e))]))"
proof (intro conjI impI)
  show "snd (google_flights env dep arr day ret airline cls price n pax)
          = Inr (JObj [(lit ''error'', JStr ((lit ''Error searching flights: '') @ str_exn env e))])"
    if "fst (google_flights env dep arr day ret airline cls price n pax) = [p]
       \<and> google_flights_try env p n = Inl e"
    using that google_flights_catches by blast
qed (rule returns_safelyI,
     rule get_stock_quote_returns get_market_data_returns get_graph_data_returns
       compare_stocks_returns get_financials_returns get_stock_news_returns
       debug_api_response_returns google_flights_returns)+

theorem handlers_never_raise_witness:
  "gateway_failed (example_env (Some (lit ''secret'')) (Inl (OtherException (lit ''ConnectionError''))))
     [(lit ''engine'', JStr (lit ''google_finance'')), (lit ''q'', JStr (lit ''AAPL'')),
      (lit ''api_key'', JStr (lit ''secret''))]
   \<and> get_stock_quote (example_env (Some (lit ''secret'')) (Inl (OtherException (lit ''ConnectionError''))))
       (lit ''AAPL'') None None
     = ([[(lit ''engine'', JStr (lit ''google_finance'')), (lit ''q'', JStr (lit ''AAPL'')),
          (lit ''api_key'', JStr (lit ''secret''))]],
        Inr (JObj [(lit ''tool'', JStr (lit ''stock_quote'')), (lit ''query'', JStr (lit ''AAPL'')),
                   (lit ''timestamp'', JStr (lit ''2025-06-01T12:00:00'')),
                   (lit ''error'', JStr (lit ''API Error: <exception>'')),
                   (lit ''success'', JBool False)]))
   \<and> returns_safely (example_env (Some (lit ''secret'')) (Inl (OtherException (lit ''ConnectionError''))))
       (get_stock_quote (example_env (Some (lit ''secret'')) (Inl (OtherException (lit ''ConnectionError''))))
          (lit ''AAPL'') None None)
   \<and> google_flights_try
       (example_env (Some (lit ''secret''))
          (Inr [(lit ''best_flights'', JList [JObj [(lit ''flights'', JList [JStr (lit ''x'')])]])]))
       [(lit ''engine'', JStr (lit ''google_flights'')), (lit ''departure_id'', JStr (lit ''JFK'')),
        (lit ''arrival_id'', JStr (lit ''LAX'')), (lit ''outbound_date'', JStr (lit ''2025-06-01'')),
        (lit ''adults'', JInt 1), (lit ''travel_class'', JInt 1), (lit ''hl'', JStr (lit ''en'')),
        (lit ''type'', JStr (lit ''2'')), (lit ''api_key'', JStr (lit ''secret''))] 5
     = Inl (AttributeError (JStr (lit ''x'')) (lit ''get''))
   \<and> snd (example_search
            (example_env (Some (lit ''secret''))
               (Inr [(lit ''best_flights'', JList [JObj [(lit ''flights'', JList [JStr (lit ''x'')])]])]))
            (Some (lit ''economy'')) 5)
     = Inr (JObj [(lit ''error'', JStr (lit ''Error searching flights: <exception>''))])"
proof -
  let ?down = "example_env (Some (lit ''secret'')) (Inl (OtherException (lit ''ConnectionError'')))"
  let ?bad = "example_env (Some (lit ''secret''))
                (Inr [(lit ''best_flights'', JList [JObj [(lit ''flights'', JList [JStr (lit ''x'')])]])])"
  let ?p = "[(lit ''engine'', JStr (lit ''google_flights'')), (lit ''departure_id'', JStr (lit ''JFK'')),
             (lit ''arrival_id'', JStr (lit ''LAX'')), (lit ''outbound_date'', JStr (lit ''2025-06-01'')),
             (lit ''adults'', JInt 1), (lit ''travel_class'', JInt 1), (lit ''hl'', JStr (lit ''en'')),
             (lit ''type'', JStr (lit ''2'')), (lit ''api_key'', JStr (lit ''secret''))]"
  have failed: "gateway_failed ?down
     [(lit ''engine'', JStr (lit ''google_finance'')), (lit ''q'', JStr (lit ''AAPL'')),
      (lit ''api_key'', JStr (lit ''secret''))]"
    by (simp add: gateway_failed_def example_env_def)
  have quote: "get_stock_quote ?down (lit ''AAPL'') None None
     = ([[(lit ''engine'', JStr (lit ''google_finance'')), (lit ''q'', JStr (lit ''AAPL'')),
          (lit ''api_key'', JStr (lit ''secret''))]],
        Inr (JObj [(lit ''tool'', JStr (lit ''stock_quote'')), (lit ''query'', JStr (lit ''AAPL'')),
                   (lit ''timestamp'', JStr (lit ''2025-06-01T12:00:00'')),
                   (lit ''error'', JStr (lit ''API Error: <exception>'')),
                   (lit ''success'', JBool False)]))"
    by (simp add: get_stock_quote_def string_eval_defs example_env_def truthy_of_def
          set_if_str_def search_google_def py_str_def create_error_response_def Let_def)
  have sent: "fst (google_flights ?bad (lit ''jfk'') (lit ''lax'') (lit ''2025-06-01'') None None
                     (Some (lit ''economy'')) None 5 (Some 1)) = [?p]"
    by (simp add: flights_eval_defs)
  have raised: "google_flights_try ?bad ?p 5 = Inl (AttributeError (JStr (lit ''x'')) (lit ''get''))"
    by (simp add: flights_eval_defs parser_eval_defs)
  note inst = handlers_never_raise
                [of ?down "(lit ''AAPL'')" None None "(lit ''indexes'')" "(lit ''1d'')" None None 10 None
                    "(lit ''google_finance'')" "(lit ''jfk'')" "(lit ''lax'')" "(lit ''2025-06-01'')" None None
                    "Some (lit ''economy'')" None 5 "Some 1"]
  note inst2 = handlers_never_raise
                [of ?bad "(lit ''AAPL'')" None None "(lit ''indexes'')" "(lit ''1d'')" None None 10 None
                    "(lit ''google_finance'')" "(lit ''jfk'')" "(lit ''lax'')" "(lit ''2025-06-01'')" None None
                    "Some (lit ''economy'')" None 5 "Some 1" ?p "AttributeError (JStr (lit ''x'')) (lit ''get'')"]
  from inst have safe: "returns_safely ?down (get_stock_quote ?down (lit ''AAPL'') None None)"
    by blast
  from inst2 sent raised have
    "snd (google_flights ?bad (lit ''jfk'') (lit ''lax'') (lit ''2025-06-01'') None None
            (Some (lit ''economy'')) None 5 (Some 1))
       = Inr (JObj [(lit ''error'',
                     JStr ((lit ''Error searching flights: '')
                           @ str_exn ?bad (AttributeError (JStr (lit ''x'')) (lit ''get''))))])"
    by blast
  then have caught: "snd (example_search ?bad (Some (lit ''economy'')) 5)
     = Inr (JObj [(lit ''error'', JStr (lit ''Error searching flights: <exception>''))])"
    by (simp add: example_search_def example_env_def lit_def)
  show ?thesis using failed quote safe raised caught by simp
qed

end
